theory Spec2Isabelle
  imports Complex_Main "HOL-Library.Sublist"
begin

section \<open>Data model of \<^verbatim>\<open>train-generator/main.py\<close>\<close>

text \<open>
  The source annotates times, distances and speeds as Python \<^verbatim>\<open>float\<close>. The records
  take the type of these numbers as a parameter \<open>'n\<close>, because the function is embedded on
  two kinds of numbers. On \<^typ>\<open>real\<close> the arithmetic is exact: rounding, infinities and NaN
  are left out, the one exception the arithmetic can raise (the \<^verbatim>\<open>ZeroDivisionError\<close> of
  \<^verbatim>\<open>/\<close>) is kept; the claims about the shape of the trajectory, the locations, the order of
  the times, the errors and the frame are proved there. On doubles, further below, every
  operation rounds as the machine does; the claims about the computed times are proved
  there. The callers also pass Python integers (a spacing of 5, a velocity of 50); \<^verbatim>\<open>/\<close> is
  true division on them as well, and below 2^53 they are doubles. A \<^verbatim>\<open>Dict[str, float]\<close>
  is a partial map from strings.
\<close>

type_synonym StationName = string
type_synonym Minutes = real
type_synonym Kilometers = real
type_synonym KMPH = real
type_synonym 'n Network = "StationName \<rightharpoonup> 'n"

record 'n Stop =
  name :: StationName
  dwell_time :: 'n

type_synonym 'n Route = "'n Stop list"

record 'n Timetable =
  stops :: "'n Route"
  departure_station :: StationName
  departure_time :: 'n

record 'n Position =
  time :: 'n
  location :: 'n

type_synonym 'n TrainMovement = "'n Position list"

text \<open>The exceptions the statements of \<^verbatim>\<open>get_train_movement\<close> can raise.\<close>

datatype error = KeyError StationName | IndexError | ZeroDivisionError | AttributeError | TypeError

section \<open>The operations \<^verbatim>\<open>get_train_movement\<close> is built from\<close>

text \<open>\<^verbatim>\<open>network[station]\<close>: a missing key raises \<^verbatim>\<open>KeyError(station)\<close>.\<close>

definition dict_getitem :: "'n Network \<Rightarrow> StationName \<Rightarrow> error + 'n" where
  "dict_getitem network station =
     (case network station of None \<Rightarrow> Inl (KeyError station) | Some km \<Rightarrow> Inr km)"

text \<open>\<^verbatim>\<open>timetable.stops[i]\<close> for the non-negative \<^verbatim>\<open>i\<close> that \<^verbatim>\<open>range\<close> produces.\<close>

definition list_getitem :: "'a list \<Rightarrow> nat \<Rightarrow> error + 'a" where
  "list_getitem xs i = (if i < length xs then Inr (xs ! i) else Inl IndexError)"

text \<open>
  \<^verbatim>\<open>a / b\<close> in exact arithmetic: a zero divisor raises \<^verbatim>\<open>ZeroDivisionError\<close>, the quotient
  is not rounded.
\<close>

definition truediv :: "real \<Rightarrow> real \<Rightarrow> error + real" where
  "truediv a b = (if b = 0 then Inl ZeroDivisionError else Inr (a / b))"

text \<open>
  The variables the \<^verbatim>\<open>for\<close> loop of \<^verbatim>\<open>get_train_movement\<close> reads and writes: the list
  \<^verbatim>\<open>movement\<close> under construction and the accumulator pair.
\<close>

record ('m, 'n) loop_state =
  movement :: 'm
  current_time :: 'n
  current_location :: 'n

text \<open>\<^verbatim>\<open>movement.append(Position(current_time, current_location))\<close>.\<close>

definition log_position ::
  "('n TrainMovement, 'n) loop_state \<Rightarrow> ('n TrainMovement, 'n) loop_state" where
  "log_position s =
     s\<lparr>movement := movement s @ [\<lparr>time = current_time s, location = current_location s\<rparr>]\<rparr>"

text \<open>The body of the loop (lines 54 to 67) at index \<open>i\<close>, in exact arithmetic.\<close>

definition loop_body ::
  "real Timetable \<Rightarrow> KMPH \<Rightarrow> real Network \<Rightarrow> nat \<Rightarrow> (real TrainMovement, real) loop_state \<Rightarrow>
   error + (real TrainMovement, real) loop_state" where
  "loop_body timetable velocity network i s =
     (case list_getitem (stops timetable) i of
        Inl e \<Rightarrow> Inl e
      | Inr destination_stop \<Rightarrow>
          let destination_station = name destination_stop;
              destination_dwell = dwell_time destination_stop
          in (case dict_getitem network destination_station of
                Inl e \<Rightarrow> Inl e
              | Inr destination_location \<Rightarrow>
                  let journey_distance = \<bar>destination_location - current_location s\<bar>
                  in (case truediv journey_distance velocity of
                        Inl e \<Rightarrow> Inl e
                      | Inr hours \<Rightarrow>
                          let arrival_time = current_time s + hours * 60;
                              s1 = s\<lparr>current_time := arrival_time\<rparr>;
                              s2 = s1\<lparr>current_location := destination_location\<rparr>;
                              s3 = log_position s2;
                              s4 = s3\<lparr>current_time := current_time s3 + destination_dwell\<rparr>
                          in Inr (log_position s4))))"

text \<open>\<^verbatim>\<open>for i in ...: body\<close>, where the body may raise: the first exception ends the loop.\<close>

fun for_range :: "(nat \<Rightarrow> 's \<Rightarrow> 'e + 's) \<Rightarrow> nat list \<Rightarrow> 's \<Rightarrow> 'e + 's" where
  "for_range body [] s = Inr s"
| "for_range body (i # rest) s =
     (case body i s of Inl e \<Rightarrow> Inl e | Inr s' \<Rightarrow> for_range body rest s')"

text \<open>\<^verbatim>\<open>get_train_movement\<close> (lines 42 to 69). An exception is the value \<open>Inl\<close>.\<close>

definition get_train_movement :: "real Timetable \<Rightarrow> KMPH \<Rightarrow> real Network \<Rightarrow> error + real TrainMovement" where
  "get_train_movement timetable velocity network =
     (case dict_getitem network (departure_station timetable) of
        Inl e \<Rightarrow> Inl e
      | Inr km \<Rightarrow>
          let s0 = log_position
                     \<lparr>movement = [], current_time = departure_time timetable,
                      current_location = km\<rparr>
          in (case for_range (loop_body timetable velocity network)
                     [0..<length (stops timetable)] s0 of
                Inl e \<Rightarrow> Inl e
              | Inr s \<Rightarrow> Inr (movement s)))"

section \<open>The callers of \<^verbatim>\<open>get_train_movement\<close> in the source\<close>

text \<open>\<^verbatim>\<open>build_network\<close> (lines 72 to 82) and the express preset (lines 85 to 94).\<close>

definition build_network :: "Kilometers \<Rightarrow> real Network" where
  "build_network spacing =
     [''A'' \<mapsto> 0 * spacing, ''B'' \<mapsto> 1 * spacing, ''C'' \<mapsto> 2 * spacing, ''D'' \<mapsto> 3 * spacing,
      ''E'' \<mapsto> 4 * spacing, ''F'' \<mapsto> 5 * spacing, ''G'' \<mapsto> 6 * spacing]"

definition get_express_movement :: "Minutes \<Rightarrow> real Network \<Rightarrow> error + real TrainMovement" where
  "get_express_movement departure network =
     (let express_dwell = 7;
          express_velocity = 120;
          express_route = [\<lparr>name = ''D'', dwell_time = express_dwell\<rparr>,
                           \<lparr>name = ''G'', dwell_time = 0\<rparr>]
      in get_train_movement
           \<lparr>stops = express_route, departure_station = ''A'', departure_time = departure\<rparr>
           express_velocity network)"

section \<open>The loop over the stops themselves\<close>

text \<open>
  One iteration of the loop, written for the stop it reads instead of its index, and the
  loop as a recursion over the route. Lemma \<open>for_range_visit_all\<close> below shows that
  \<open>for_range\<close> over \<^verbatim>\<open>range(0, len(timetable.stops))\<close> computes exactly this; the properties
  of \<open>get_train_movement\<close> are then proved by induction on the route.
\<close>

definition visit ::
  "KMPH \<Rightarrow> real Network \<Rightarrow> real Stop \<Rightarrow> (real TrainMovement, real) loop_state \<Rightarrow> error + (real TrainMovement, real) loop_state" where
  "visit velocity network stop s =
     (case network (name stop) of
        None \<Rightarrow> Inl (KeyError (name stop))
      | Some km \<Rightarrow>
          if velocity = 0 then Inl ZeroDivisionError
          else
            let arrival = current_time s + \<bar>km - current_location s\<bar> / velocity * 60;
                ready = arrival + dwell_time stop
            in Inr \<lparr>movement = movement s @
                       [\<lparr>time = arrival, location = km\<rparr>, \<lparr>time = ready, location = km\<rparr>],
                     current_time = ready, current_location = km\<rparr>)"

fun visit_all ::
  "KMPH \<Rightarrow> real Network \<Rightarrow> real Route \<Rightarrow> (real TrainMovement, real) loop_state \<Rightarrow> error + (real TrainMovement, real) loop_state" where
  "visit_all velocity network [] s = Inr s"
| "visit_all velocity network (stop # rest) s =
     (case visit velocity network stop s of
        Inl e \<Rightarrow> Inl e
      | Inr s' \<Rightarrow> visit_all velocity network rest s')"

text \<open>The loop state after line 51.\<close>

definition start :: "'n Timetable \<Rightarrow> 'n \<Rightarrow> ('n TrainMovement, 'n) loop_state" where
  "start timetable km =
     \<lparr>movement = [\<lparr>time = departure_time timetable, location = km\<rparr>],
      current_time = departure_time timetable, current_location = km\<rparr>"

text \<open>The last logged sample is the accumulator pair: true after line 51 and after every iteration.\<close>

definition tracked :: "('n TrainMovement, 'n) loop_state \<Rightarrow> bool" where
  "tracked s \<longleftrightarrow> movement s \<noteq> [] \<and>
     last (movement s) = \<lparr>time = current_time s, location = current_location s\<rparr>"

section \<open>\<^verbatim>\<open>get_train_movement\<close> on a heap of objects\<close>

text \<open>
  For the frame of the function, its statements are modelled once more on an explicit heap.
  The objects of the source's classes, the lists and the dictionary live in the heap, and a
  variable or an attribute of such a type holds a reference. Floats and strings are
  immutable in Python and are kept as values. An object is allocated at the end of the
  heap, so a reference is an index into it.
\<close>

type_synonym ref = nat

datatype obj =
    Timetable_obj ref StationName Minutes
  | Stop_obj StationName Minutes
  | Position_obj Minutes Kilometers
  | List_obj "ref list"
  | Dict_obj "real Network"

type_synonym heap = "obj list"

definition new :: "obj \<Rightarrow> heap \<Rightarrow> ref \<times> heap" where
  "new ob h = (length h, h @ [ob])"

definition deref :: "heap \<Rightarrow> ref \<Rightarrow> obj option" where
  "deref h r = (if r < length h then Some (h ! r) else None)"

text \<open>\<^verbatim>\<open>timetable.stops\<close>, \<^verbatim>\<open>timetable.departure_station\<close>, \<^verbatim>\<open>timetable.departure_time\<close>.\<close>

definition attr_stops :: "heap \<Rightarrow> ref \<Rightarrow> error + ref" where
  "attr_stops h r =
     (case deref h r of Some (Timetable_obj st ds dt) \<Rightarrow> Inr st | _ \<Rightarrow> Inl AttributeError)"

definition attr_departure_station :: "heap \<Rightarrow> ref \<Rightarrow> error + StationName" where
  "attr_departure_station h r =
     (case deref h r of Some (Timetable_obj st ds dt) \<Rightarrow> Inr ds | _ \<Rightarrow> Inl AttributeError)"

definition attr_departure_time :: "heap \<Rightarrow> ref \<Rightarrow> error + Minutes" where
  "attr_departure_time h r =
     (case deref h r of Some (Timetable_obj st ds dt) \<Rightarrow> Inr dt | _ \<Rightarrow> Inl AttributeError)"

text \<open>\<^verbatim>\<open>destination_stop.name\<close> and \<^verbatim>\<open>destination_stop.dwell_time\<close>.\<close>

definition attr_name :: "heap \<Rightarrow> ref \<Rightarrow> error + StationName" where
  "attr_name h r =
     (case deref h r of Some (Stop_obj nm dw) \<Rightarrow> Inr nm | _ \<Rightarrow> Inl AttributeError)"

definition attr_dwell_time :: "heap \<Rightarrow> ref \<Rightarrow> error + Minutes" where
  "attr_dwell_time h r =
     (case deref h r of Some (Stop_obj nm dw) \<Rightarrow> Inr dw | _ \<Rightarrow> Inl AttributeError)"

text \<open>\<^verbatim>\<open>len(xs)\<close>, \<^verbatim>\<open>xs[i]\<close> and \<^verbatim>\<open>network[station]\<close> through a reference.\<close>

definition len_at :: "heap \<Rightarrow> ref \<Rightarrow> error + nat" where
  "len_at h r = (case deref h r of Some (List_obj xs) \<Rightarrow> Inr (length xs) | _ \<Rightarrow> Inl TypeError)"

definition getitem_at :: "heap \<Rightarrow> ref \<Rightarrow> nat \<Rightarrow> error + ref" where
  "getitem_at h r i =
     (case deref h r of Some (List_obj xs) \<Rightarrow> list_getitem xs i | _ \<Rightarrow> Inl TypeError)"

definition lookup_at :: "heap \<Rightarrow> ref \<Rightarrow> StationName \<Rightarrow> error + Kilometers" where
  "lookup_at h r station =
     (case deref h r of Some (Dict_obj d) \<Rightarrow> dict_getitem d station | _ \<Rightarrow> Inl TypeError)"

text \<open>
  The local variables of the loop together with the heap: \<^verbatim>\<open>movement\<close> now holds the
  reference of the list.
\<close>

record heap_loop_state = "(ref, real) loop_state" +
  store :: heap

text \<open>
  \<^verbatim>\<open>movement.append(Position(current_time, current_location))\<close>: a new \<^verbatim>\<open>Position\<close> is
  allocated and its reference is appended to the list object, in place.
\<close>

definition log_position_at :: "heap_loop_state \<Rightarrow> (error \<times> heap) + heap_loop_state" where
  "log_position_at s =
     (case deref (store s) (movement s) of
        Some (List_obj ps) \<Rightarrow>
          let (p, h) = new (Position_obj (current_time s) (current_location s)) (store s)
          in Inr (s\<lparr>store := h[movement s := List_obj (ps @ [p])]\<rparr>)
      | _ \<Rightarrow> Inl (AttributeError, store s))"

text \<open>The body of the loop. An exception comes with the heap it is raised in.\<close>

definition loop_body_at ::
  "ref \<Rightarrow> KMPH \<Rightarrow> ref \<Rightarrow> nat \<Rightarrow> heap_loop_state \<Rightarrow> (error \<times> heap) + heap_loop_state" where
  "loop_body_at timetable velocity network i s =
     (case attr_stops (store s) timetable of
        Inl e \<Rightarrow> Inl (e, store s)
      | Inr stops_ref \<Rightarrow>
     (case getitem_at (store s) stops_ref i of
        Inl e \<Rightarrow> Inl (e, store s)
      | Inr destination_stop \<Rightarrow>
     (case attr_name (store s) destination_stop of
        Inl e \<Rightarrow> Inl (e, store s)
      | Inr destination_station \<Rightarrow>
     (case attr_dwell_time (store s) destination_stop of
        Inl e \<Rightarrow> Inl (e, store s)
      | Inr destination_dwell \<Rightarrow>
     (case lookup_at (store s) network destination_station of
        Inl e \<Rightarrow> Inl (e, store s)
      | Inr destination_location \<Rightarrow>
          let journey_distance = \<bar>destination_location - current_location s\<bar>
          in (case truediv journey_distance velocity of
                Inl e \<Rightarrow> Inl (e, store s)
              | Inr hours \<Rightarrow>
                  let arrival_time = current_time s + hours * 60;
                      s1 = s\<lparr>current_time := arrival_time\<rparr>;
                      s2 = s1\<lparr>current_location := destination_location\<rparr>
                  in (case log_position_at s2 of
                        Inl eh \<Rightarrow> Inl eh
                      | Inr s3 \<Rightarrow>
                          log_position_at
                            (s3\<lparr>current_time := current_time s3 + destination_dwell\<rparr>))))))))"

text \<open>
  The function: it is given the heap and the references of the timetable and of the network,
  and returns the reference of the new list, or raises, in the heap it leaves behind.
\<close>

definition get_train_movement_at ::
  "heap \<Rightarrow> ref \<Rightarrow> KMPH \<Rightarrow> ref \<Rightarrow> (error \<times> heap) + (ref \<times> heap)" where
  "get_train_movement_at h0 timetable velocity network =
     (let (movement_ref, h) = new (List_obj []) h0
      in (case attr_departure_station h timetable of
            Inl e \<Rightarrow> Inl (e, h)
          | Inr station \<Rightarrow>
         (case attr_departure_time h timetable of
            Inl e \<Rightarrow> Inl (e, h)
          | Inr minutes \<Rightarrow>
         (case lookup_at h network station of
            Inl e \<Rightarrow> Inl (e, h)
          | Inr km \<Rightarrow>
         (case log_position_at
                 \<lparr>movement = movement_ref, current_time = minutes, current_location = km,
                  store = h\<rparr> of
            Inl eh \<Rightarrow> Inl eh
          | Inr s0 \<Rightarrow>
         (case attr_stops (store s0) timetable of
            Inl e \<Rightarrow> Inl (e, store s0)
          | Inr stops_ref \<Rightarrow>
         (case len_at (store s0) stops_ref of
            Inl e \<Rightarrow> Inl (e, store s0)
          | Inr n \<Rightarrow>
         (case for_range (loop_body_at timetable velocity network) [0..<n] s0 of
            Inl eh \<Rightarrow> Inl eh
          | Inr s \<Rightarrow> Inr (movement s, store s)))))))))"

text \<open>What a heap holds at a reference, as a value of the data model.\<close>

definition stop_at :: "heap \<Rightarrow> ref \<Rightarrow> real Stop \<Rightarrow> bool" where
  "stop_at h r stop \<longleftrightarrow> deref h r = Some (Stop_obj (name stop) (dwell_time stop))"

definition timetable_at :: "heap \<Rightarrow> ref \<Rightarrow> real Timetable \<Rightarrow> bool" where
  "timetable_at h r timetable \<longleftrightarrow>
     (case deref h r of
        Some (Timetable_obj st ds dt) \<Rightarrow>
          ds = departure_station timetable \<and> dt = departure_time timetable \<and>
          (case deref h st of
             Some (List_obj rs) \<Rightarrow> list_all2 (stop_at h) rs (stops timetable)
           | _ \<Rightarrow> False)
      | _ \<Rightarrow> False)"

definition network_at :: "heap \<Rightarrow> ref \<Rightarrow> real Network \<Rightarrow> bool" where
  "network_at h r network \<longleftrightarrow> deref h r = Some (Dict_obj network)"

definition position_at :: "heap \<Rightarrow> ref \<Rightarrow> real Position \<Rightarrow> bool" where
  "position_at h r p \<longleftrightarrow> deref h r = Some (Position_obj (time p) (location p))"

definition movement_at :: "heap \<Rightarrow> ref \<Rightarrow> real TrainMovement \<Rightarrow> bool" where
  "movement_at h r m \<longleftrightarrow>
     (case deref h r of Some (List_obj rs) \<Rightarrow> list_all2 (position_at h) rs m | _ \<Rightarrow> False)"

text \<open>
  The list at \<open>r\<close> and the objects it refers to were allocated after the heap had the
  size \<open>n\<close>.
\<close>

definition allocated_since :: "nat \<Rightarrow> heap \<Rightarrow> ref \<Rightarrow> bool" where
  "allocated_since n h r \<longleftrightarrow>
     n \<le> r \<and> (case deref h r of Some (List_obj rs) \<Rightarrow> list_all (\<lambda>p. n \<le> p) rs | _ \<Rightarrow> False)"

text \<open>What the loop on the heap maintains, for a call that started in the heap \<open>h0\<close>.\<close>

definition frame_inv :: "heap \<Rightarrow> heap_loop_state \<Rightarrow> bool" where
  "frame_inv h0 s \<longleftrightarrow> prefix h0 (store s) \<and> length h0 \<le> movement s"

definition sim :: "heap \<Rightarrow> heap_loop_state \<Rightarrow> (real TrainMovement, real) loop_state \<Rightarrow> bool" where
  "sim h0 s ps \<longleftrightarrow>
     frame_inv h0 s \<and> movement_at (store s) (movement s) (movement ps) \<and>
     allocated_since (length h0) (store s) (movement s) \<and>
     current_time s = current_time ps \<and> current_location s = current_location ps"

section \<open>\<^verbatim>\<open>get_train_movement\<close> on double-precision floats\<close>

text \<open>
  The times the function computes are Python \<^verbatim>\<open>float\<close>s, that is IEEE 754 doubles, and
  each of \<^verbatim>\<open>-\<close>, \<^verbatim>\<open>/\<close>, \<^verbatim>\<open>*\<close> and \<^verbatim>\<open>+\<close> rounds its exact result to the nearest double. For the
  claims about the computed times the function is therefore embedded once more, on doubles.
  A finite double is kept as the real number it denotes; the two infinities and NaN are
  values of their own. The sign of a zero is left out: no operation of the function can turn
  it into a different number.
\<close>

datatype f64 = Fin real | PInf | NInf | NaN

text \<open>
  Rounding of a real number to an integer, to nearest, a tie to the even neighbour.
\<close>

definition rne :: "real \<Rightarrow> int" where
  "rne q =
     (let f = \<lfloor>q\<rfloor>; d = q - of_int f
      in if d < 1 / 2 then f else if 1 / 2 < d then f + 1 else if even f then f else f + 1)"

text \<open>
  The exponent of the binade of \<open>x\<close>: the largest \<open>e\<close> from -1021 to 1023 with
  \<open>2 ^ e \<le> \<bar>x\<bar>\<close>, and -1022 below that (the subnormal numbers and zero). It is found by a
  search down from 1023.
\<close>

fun expo_from :: "nat \<Rightarrow> real \<Rightarrow> int" where
  "expo_from 0 x = - 1022"
| "expo_from (Suc n) x =
     (if 2 powi (int n - 1021) \<le> \<bar>x\<bar> then int n - 1021 else expo_from n x)"

definition expo :: "real \<Rightarrow> int" where
  "expo x = expo_from 2045 x"

text \<open>
  Rounding to the nearest double: a double of exponent \<open>e\<close> is an integer multiple of
  \<open>2 ^ (e - 52)\<close>. A result beyond the largest finite double is an infinity.
\<close>

definition round_nearest :: "real \<Rightarrow> real" where
  "round_nearest x = of_int (rne (x / 2 powi (expo x - 52))) * 2 powi (expo x - 52)"

definition max_f64 :: real where
  "max_f64 = (2 ^ 53 - 1) * 2 ^ 971"

definition fl :: "real \<Rightarrow> f64" where
  "fl x =
     (let r = round_nearest x
      in if max_f64 < r then PInf else if r < - max_f64 then NInf else Fin r)"

text \<open>
  The operations of Python on floats. \<^verbatim>\<open>abs\<close> and negation are exact; \<^verbatim>\<open>+\<close>, \<^verbatim>\<open>-\<close>, \<^verbatim>\<open>*\<close>
  and \<^verbatim>\<open>/\<close> round, never raise on overflow, and follow IEEE 754 on infinities and NaN.
\<close>

fun fneg :: "f64 \<Rightarrow> f64" where
  "fneg (Fin a) = Fin (- a)"
| "fneg PInf = NInf"
| "fneg NInf = PInf"
| "fneg NaN = NaN"

fun fabs :: "f64 \<Rightarrow> f64" where
  "fabs (Fin a) = Fin \<bar>a\<bar>"
| "fabs PInf = PInf"
| "fabs NInf = PInf"
| "fabs NaN = NaN"

fun fadd :: "f64 \<Rightarrow> f64 \<Rightarrow> f64" where
  "fadd (Fin a) (Fin b) = fl (a + b)"
| "fadd NaN y = NaN"
| "fadd x NaN = NaN"
| "fadd PInf NInf = NaN"
| "fadd NInf PInf = NaN"
| "fadd PInf y = PInf"
| "fadd NInf y = NInf"
| "fadd x PInf = PInf"
| "fadd x NInf = NInf"

definition fsub :: "f64 \<Rightarrow> f64 \<Rightarrow> f64" where
  "fsub x y = fadd x (fneg y)"

definition signed_inf :: "real \<Rightarrow> f64 \<Rightarrow> f64" where
  "signed_inf a i = (if a = 0 then NaN else if 0 < a then i else fneg i)"

fun fmul :: "f64 \<Rightarrow> f64 \<Rightarrow> f64" where
  "fmul (Fin a) (Fin b) = fl (a * b)"
| "fmul NaN y = NaN"
| "fmul x NaN = NaN"
| "fmul (Fin a) y = signed_inf a y"
| "fmul x (Fin b) = signed_inf b x"
| "fmul PInf y = y"
| "fmul NInf y = fneg y"

fun fdiv :: "f64 \<Rightarrow> f64 \<Rightarrow> f64" where
  "fdiv (Fin a) (Fin b) = fl (a / b)"
| "fdiv NaN y = NaN"
| "fdiv x NaN = NaN"
| "fdiv (Fin a) y = Fin 0"
| "fdiv x (Fin b) = signed_inf b x"
| "fdiv x y = NaN"

text \<open>
  \<^verbatim>\<open>a / b\<close> on floats: a zero divisor raises \<^verbatim>\<open>ZeroDivisionError\<close>, whatever the dividend.
\<close>

definition float_truediv :: "f64 \<Rightarrow> f64 \<Rightarrow> error + f64" where
  "float_truediv a b = (if b = Fin 0 then Inl ZeroDivisionError else Inr (fdiv a b))"

text \<open>
  The body of the loop and the function (lines 42 to 69), statement by statement as before,
  with the operations on doubles; \<^verbatim>\<open>60.0\<close> is the double 60.
\<close>

definition loop_body_f64 ::
  "f64 Timetable \<Rightarrow> f64 \<Rightarrow> f64 Network \<Rightarrow> nat \<Rightarrow> (f64 TrainMovement, f64) loop_state \<Rightarrow>
   error + (f64 TrainMovement, f64) loop_state" where
  "loop_body_f64 timetable velocity network i s =
     (case list_getitem (stops timetable) i of
        Inl e \<Rightarrow> Inl e
      | Inr destination_stop \<Rightarrow>
          let destination_station = name destination_stop;
              destination_dwell = dwell_time destination_stop
          in (case dict_getitem network destination_station of
                Inl e \<Rightarrow> Inl e
              | Inr destination_location \<Rightarrow>
                  let journey_distance = fabs (fsub destination_location (current_location s))
                  in (case float_truediv journey_distance velocity of
                        Inl e \<Rightarrow> Inl e
                      | Inr hours \<Rightarrow>
                          let arrival_time = fadd (current_time s) (fmul hours (Fin 60));
                              s1 = s\<lparr>current_time := arrival_time\<rparr>;
                              s2 = s1\<lparr>current_location := destination_location\<rparr>;
                              s3 = log_position s2;
                              s4 = s3\<lparr>current_time := fadd (current_time s3) destination_dwell\<rparr>
                          in Inr (log_position s4))))"

definition get_train_movement_f64 ::
  "f64 Timetable \<Rightarrow> f64 \<Rightarrow> f64 Network \<Rightarrow> error + f64 TrainMovement" where
  "get_train_movement_f64 timetable velocity network =
     (case dict_getitem network (departure_station timetable) of
        Inl e \<Rightarrow> Inl e
      | Inr km \<Rightarrow>
          let s0 = log_position
                     \<lparr>movement = [], current_time = departure_time timetable,
                      current_location = km\<rparr>
          in (case for_range (loop_body_f64 timetable velocity network)
                     [0..<length (stops timetable)] s0 of
                Inl e \<Rightarrow> Inl e
              | Inr s \<Rightarrow> Inr (movement s)))"

text \<open>
  One iteration of the loop on doubles for the stop it reads, and the loop as a recursion over
  the route, as for the real numbers above; \<open>arrival_f64\<close> is the arrival time of lines 59
  and 60.
\<close>

definition arrival_f64 :: "f64 \<Rightarrow> f64 \<Rightarrow> f64 \<Rightarrow> f64 \<Rightarrow> f64" where
  "arrival_f64 t l km velocity = fadd t (fmul (fdiv (fabs (fsub km l)) velocity) (Fin 60))"

definition visit_f64 ::
  "f64 \<Rightarrow> f64 Network \<Rightarrow> f64 Stop \<Rightarrow> (f64 TrainMovement, f64) loop_state \<Rightarrow>
   error + (f64 TrainMovement, f64) loop_state" where
  "visit_f64 velocity network stop s =
     (case network (name stop) of
        None \<Rightarrow> Inl (KeyError (name stop))
      | Some km \<Rightarrow>
          if velocity = Fin 0 then Inl ZeroDivisionError
          else
            let arrival = fadd (current_time s)
                  (fmul (fdiv (fabs (fsub km (current_location s))) velocity) (Fin 60));
                ready = fadd arrival (dwell_time stop)
            in Inr \<lparr>movement = movement s @
                       [\<lparr>time = arrival, location = km\<rparr>, \<lparr>time = ready, location = km\<rparr>],
                     current_time = ready, current_location = km\<rparr>)"

fun visit_all_f64 ::
  "f64 \<Rightarrow> f64 Network \<Rightarrow> f64 Route \<Rightarrow> (f64 TrainMovement, f64) loop_state \<Rightarrow>
   error + (f64 TrainMovement, f64) loop_state" where
  "visit_all_f64 velocity network [] s = Inr s"
| "visit_all_f64 velocity network (stop # rest) s =
     (case visit_f64 velocity network stop s of
        Inl e \<Rightarrow> Inl e
      | Inr s' \<Rightarrow> visit_all_f64 velocity network rest s')"

text \<open>
  A double in the sense of this embedding: a finite value is one that rounding leaves as it
  is.
\<close>

definition is_f64 :: "f64 \<Rightarrow> bool" where
  "is_f64 x = (case x of Fin a \<Rightarrow> fl a = Fin a | _ \<Rightarrow> True)"

section \<open>The loop over indices and the loop over stops agree\<close>

lemma loop_body_visit:
  "i < length (stops timetable) \<Longrightarrow>
   loop_body timetable velocity network i s = visit velocity network (stops timetable ! i) s"
  by (simp add: loop_body_def visit_def list_getitem_def dict_getitem_def truediv_def
      log_position_def Let_def split: option.splits)

lemma for_range_visit_all:
  "\<forall>i \<in> set is. i < length (stops timetable) \<Longrightarrow>
   for_range (loop_body timetable velocity network) is s =
   visit_all velocity network (map ((!) (stops timetable)) is) s"
  by (induction "is" arbitrary: s) (simp_all add: loop_body_visit split: sum.splits)

lemma get_train_movement_visit_all:
  "get_train_movement timetable velocity network =
     (case network (departure_station timetable) of
        None \<Rightarrow> Inl (KeyError (departure_station timetable))
      | Some km \<Rightarrow>
          (case visit_all velocity network (stops timetable) (start timetable km) of
             Inl e \<Rightarrow> Inl e
           | Inr s \<Rightarrow> Inr (movement s)))"
proof -
  have "for_range (loop_body timetable velocity network) [0..<length (stops timetable)] s =
        visit_all velocity network (stops timetable) s" for s
    using for_range_visit_all [of "[0..<length (stops timetable)]" timetable velocity network s]
    by (simp add: map_nth)
  then show ?thesis
    by (simp add: get_train_movement_def dict_getitem_def log_position_def start_def
        split: option.splits)
qed

section \<open>Properties of the loop\<close>

lemma visit_Inr:
  "visit velocity network stop s = Inr s' \<longleftrightarrow>
   velocity \<noteq> 0 \<and> (\<exists>km. network (name stop) = Some km \<and>
     s' = \<lparr>movement = movement s @
            [\<lparr>time = current_time s + \<bar>km - current_location s\<bar> / velocity * 60, location = km\<rparr>,
             \<lparr>time = current_time s + \<bar>km - current_location s\<bar> / velocity * 60 + dwell_time stop,
              location = km\<rparr>],
          current_time = current_time s + \<bar>km - current_location s\<bar> / velocity * 60 + dwell_time stop,
          current_location = km\<rparr>)"
  by (auto simp: visit_def Let_def split: option.splits)

lemma visit_all_Cons_Inr:
  "visit_all velocity network (stop # rest) s = Inr s' \<longleftrightarrow>
   (\<exists>s1. visit velocity network stop s = Inr s1 \<and> visit_all velocity network rest s1 = Inr s')"
  by (simp split: sum.splits)

lemma visit_all_prefix:
  "visit_all velocity network xs s = Inr s' \<Longrightarrow>
   \<exists>ys. movement s' = movement s @ ys \<and> length ys = 2 * length xs"
proof (induction xs arbitrary: s)
  case Nil
  then show ?case by simp
next
  case (Cons stop rest)
  then obtain s1 where v: "visit velocity network stop s = Inr s1"
    and r: "visit_all velocity network rest s1 = Inr s'"
    by (auto split: sum.splits)
  from Cons.IH [OF r] obtain ys where ys: "movement s' = movement s1 @ ys" "length ys = 2 * length rest"
    by blast
  from v obtain a d where "movement s1 = movement s @ [a, d]"
    by (auto simp: visit_Inr)
  with ys show ?case by simp
qed

lemma visit_all_Inr_iff:
  "(\<exists>s'. visit_all velocity network xs s = Inr s') \<longleftrightarrow>
   (\<forall>x \<in> set xs. network (name x) \<noteq> None) \<and> (xs = [] \<or> velocity \<noteq> 0)"
proof (induction xs arbitrary: s)
  case Nil
  then show ?case by simp
next
  case (Cons stop rest)
  have "(\<exists>s'. visit_all velocity network (stop # rest) s = Inr s') \<longleftrightarrow>
        (\<exists>s1. visit velocity network stop s = Inr s1 \<and>
              (\<exists>s'. visit_all velocity network rest s1 = Inr s'))"
    by (auto split: sum.splits)
  also have "\<dots> \<longleftrightarrow> (\<exists>s1. visit velocity network stop s = Inr s1) \<and>
        (\<forall>x \<in> set rest. network (name x) \<noteq> None) \<and> (rest = [] \<or> velocity \<noteq> 0)"
    by (simp add: Cons.IH)
  also have "\<dots> \<longleftrightarrow> (\<forall>x \<in> set (stop # rest). network (name x) \<noteq> None) \<and>
        (stop # rest = [] \<or> velocity \<noteq> 0)"
    by (auto simp: visit_Inr)
  finally show ?case .
qed

lemma visit_all_sorted:
  "visit_all velocity network xs s = Inr s' \<Longrightarrow> 0 < velocity \<Longrightarrow>
   \<forall>x \<in> set xs. 0 \<le> dwell_time x \<Longrightarrow>
   sorted (map time (movement s)) \<Longrightarrow> \<forall>p \<in> set (movement s). time p \<le> current_time s \<Longrightarrow>
   sorted (map time (movement s'))"
proof (induction xs arbitrary: s)
  case Nil
  then show ?case by simp
next
  case (Cons stop rest)
  then obtain s1 where v: "visit velocity network stop s = Inr s1"
    and r: "visit_all velocity network rest s1 = Inr s'"
    by (auto split: sum.splits)
  from v obtain km where s1: "s1 = \<lparr>movement = movement s @
        [\<lparr>time = current_time s + \<bar>km - current_location s\<bar> / velocity * 60, location = km\<rparr>,
         \<lparr>time = current_time s + \<bar>km - current_location s\<bar> / velocity * 60 + dwell_time stop,
          location = km\<rparr>],
        current_time = current_time s + \<bar>km - current_location s\<bar> / velocity * 60 + dwell_time stop,
        current_location = km\<rparr>"
    by (auto simp: visit_Inr)
  from Cons.prems(2) have travel: "0 \<le> \<bar>km - current_location s\<bar> / velocity * 60"
    by simp
  from Cons.prems(3) have dwell: "0 \<le> dwell_time stop"
    by simp
  have bound: "\<forall>p \<in> set (movement s1). time p \<le> current_time s1"
    using Cons.prems(5) travel dwell by (auto simp: s1 intro: order_trans)
  have srt: "sorted (map time (movement s1))"
    using Cons.prems(4,5) travel dwell by (auto simp: s1 sorted_append intro: order_trans)
  from Cons.prems(3) have "\<forall>x \<in> set rest. 0 \<le> dwell_time x"
    by simp
  from Cons.IH [OF r Cons.prems(2) this srt bound] show ?case .
qed

lemma visit_all_locations:
  "visit_all velocity network xs s = Inr s' \<Longrightarrow> p \<in> set (movement s') \<Longrightarrow>
   p \<in> set (movement s) \<or> (\<exists>x \<in> set xs. network (name x) = Some (location p))"
proof (induction xs arbitrary: s)
  case Nil
  then show ?case by simp
next
  case (Cons stop rest)
  then obtain s1 where v: "visit velocity network stop s = Inr s1"
    and r: "visit_all velocity network rest s1 = Inr s'"
    by (auto split: sum.splits)
  from Cons.IH [OF r Cons.prems(2)] v show ?case
    by (auto simp: visit_Inr)
qed

section \<open>Properties of \<^verbatim>\<open>get_train_movement\<close>\<close>

lemma get_train_movement_Inr:
  "get_train_movement timetable velocity network = Inr m \<longleftrightarrow>
   (\<exists>km s. network (departure_station timetable) = Some km \<and>
      visit_all velocity network (stops timetable) (start timetable km) = Inr s \<and>
      m = movement s)"
  by (auto simp: get_train_movement_visit_all split: option.splits sum.splits)

lemma get_train_movement_returns:
  "(\<exists>m. get_train_movement timetable velocity network = Inr m) \<longleftrightarrow>
   network (departure_station timetable) \<noteq> None \<and>
   (\<forall>x \<in> set (stops timetable). network (name x) \<noteq> None) \<and>
   (stops timetable = [] \<or> velocity \<noteq> 0)"
proof -
  have "(\<exists>m. get_train_movement timetable velocity network = Inr m) \<longleftrightarrow>
        (\<exists>km. network (departure_station timetable) = Some km \<and>
           (\<exists>s. visit_all velocity network (stops timetable) (start timetable km) = Inr s))"
    by (auto simp: get_train_movement_Inr)
  then show ?thesis
    by (auto simp: visit_all_Inr_iff)
qed

lemma tracked_start: "tracked (start timetable km)"
  by (simp add: tracked_def start_def)

lemma get_train_movement_length:
  "get_train_movement timetable velocity network = Inr m \<Longrightarrow>
   length m = 1 + 2 * length (stops timetable)"
  by (auto simp: get_train_movement_Inr start_def dest!: visit_all_prefix)

lemma get_train_movement_hd:
  "get_train_movement timetable velocity network = Inr m \<Longrightarrow>
   network (departure_station timetable) = Some km \<Longrightarrow>
   m \<noteq> [] \<and> hd m = \<lparr>time = departure_time timetable, location = km\<rparr>"
  by (auto simp: get_train_movement_Inr start_def dest!: visit_all_prefix)

lemma visit_all_KeyError_names:
  "velocity \<noteq> 0 \<Longrightarrow> find (\<lambda>k. network k = None) (map name xs) = Some k \<Longrightarrow>
   visit_all velocity network xs s = Inl (KeyError k)"
proof (induction xs arbitrary: s)
  case Nil
  then show ?case by simp
next
  case (Cons stop rest)
  then show ?case
    by (cases "network (name stop)") (auto simp: visit_def Let_def)
qed

lemma find_first: "\<exists>x \<in> set xs. P x \<Longrightarrow> \<exists>k. find P xs = Some k"
  by (cases "find P xs") (auto simp: find_None_iff)

lemma get_train_movement_KeyError:
  assumes "velocity \<noteq> 0"
    and "find (\<lambda>k. network k = None) (departure_station timetable # map name (stops timetable)) = Some k"
  shows "get_train_movement timetable velocity network = Inl (KeyError k)"
proof (cases "network (departure_station timetable)")
  case None
  with assms(2) show ?thesis
    by (simp add: get_train_movement_visit_all)
next
  case (Some km)
  with assms(2) have "find (\<lambda>k. network k = None) (map name (stops timetable)) = Some k"
    by simp
  from visit_all_KeyError_names [OF assms(1) this] Some show ?thesis
    by (simp add: get_train_movement_visit_all)
qed

lemma get_train_movement_sorted:
  assumes "get_train_movement timetable velocity network = Inr m"
    and "0 < velocity" and "\<forall>x \<in> set (stops timetable). 0 \<le> dwell_time x"
  shows "sorted (map time m)"
proof -
  from assms(1) obtain km s where
    s: "visit_all velocity network (stops timetable) (start timetable km) = Inr s"
    and m: "m = movement s"
    by (auto simp: get_train_movement_Inr)
  have "sorted (map time (movement (start timetable km)))"
    and "\<forall>p \<in> set (movement (start timetable km)). time p \<le> current_time (start timetable km)"
    by (simp_all add: start_def)
  from visit_all_sorted [OF s assms(2,3) this] m show ?thesis
    by simp
qed

section \<open>Concrete runs\<close>

lemma express_run:
  "get_express_movement 0 (build_network 5) =
     Inr [\<lparr>time = 0, location = 0\<rparr>, \<lparr>time = 15 / 2, location = 15\<rparr>,
          \<lparr>time = 29 / 2, location = 15\<rparr>, \<lparr>time = 22, location = 30\<rparr>,
          \<lparr>time = 22, location = 30\<rparr>]"
  by (simp add: get_express_movement_def build_network_def get_train_movement_visit_all
      start_def visit_def Let_def)

lemma express_run':
  "get_train_movement
     \<lparr>stops = [\<lparr>name = ''D'', dwell_time = 7\<rparr>, \<lparr>name = ''G'', dwell_time = 0\<rparr>],
      departure_station = ''A'', departure_time = 0\<rparr>
     120 (build_network 5) = get_express_movement 0 (build_network 5)"
  by (simp add: get_express_movement_def)

lemma express_run_at:
  "get_train_movement_at
     [Dict_obj (build_network 5), Stop_obj ''D'' 7, Stop_obj ''G'' 0, List_obj [1, 2],
      Timetable_obj 3 ''A'' 0] 4 120 0 =
   Inr (5, [Dict_obj (build_network 5), Stop_obj ''D'' 7, Stop_obj ''G'' 0, List_obj [1, 2],
      Timetable_obj 3 ''A'' 0, List_obj [6, 7, 8, 9, 10], Position_obj 0 0,
      Position_obj (15 / 2) 15, Position_obj (29 / 2) 15, Position_obj 22 30,
      Position_obj 22 30])"
  by (simp add: get_train_movement_at_def new_def attr_departure_station_def deref_def
      attr_departure_time_def lookup_at_def dict_getitem_def build_network_def
      log_position_at_def attr_stops_def len_at_def upt_rec loop_body_at_def getitem_at_def
      list_getitem_def attr_name_def attr_dwell_time_def truediv_def Let_def)

section \<open>The heap is only extended\<close>

lemma deref_Some: "deref h r = Some ob \<longleftrightarrow> r < length h \<and> h ! r = ob"
  by (auto simp: deref_def)

lemma deref_prefix: "prefix h h' \<Longrightarrow> deref h r = Some ob \<Longrightarrow> deref h' r = Some ob"
  by (auto simp: deref_Some prefix_def nth_append)

lemma prefix_update: "prefix h0 h \<Longrightarrow> length h0 \<le> r \<Longrightarrow> prefix h0 (h[r := ob])"
  by (auto simp: prefix_def list_update_append)

lemma stop_at_prefix: "prefix h h' \<Longrightarrow> stop_at h r stop \<Longrightarrow> stop_at h' r stop"
  by (simp add: stop_at_def deref_prefix)

lemma timetable_at_iff:
  "timetable_at h r timetable \<longleftrightarrow>
   (\<exists>st rs. deref h r =
        Some (Timetable_obj st (departure_station timetable) (departure_time timetable)) \<and>
      deref h st = Some (List_obj rs) \<and> list_all2 (stop_at h) rs (stops timetable))"
  by (auto simp: timetable_at_def split: option.splits obj.splits)

lemma timetable_at_prefix:
  assumes "prefix h h'" and "timetable_at h r timetable"
  shows "timetable_at h' r timetable"
proof -
  from assms(2) obtain st rs where
    t: "deref h r = Some (Timetable_obj st (departure_station timetable) (departure_time timetable))"
    and l: "deref h st = Some (List_obj rs)"
    and a: "list_all2 (stop_at h) rs (stops timetable)"
    by (auto simp: timetable_at_iff)
  from a have "list_all2 (stop_at h') rs (stops timetable)"
    by (rule list_all2_mono) (rule stop_at_prefix [OF assms(1)])
  with deref_prefix [OF assms(1) t] deref_prefix [OF assms(1) l] show ?thesis
    unfolding timetable_at_iff by blast
qed

lemma network_at_prefix: "prefix h h' \<Longrightarrow> network_at h r network \<Longrightarrow> network_at h' r network"
  by (simp add: network_at_def deref_prefix)

lemma log_position_at_Inl: "log_position_at s = Inl (e, h') \<Longrightarrow> h' = store s"
  by (auto simp: log_position_at_def new_def split: option.splits obj.splits)

lemma log_position_at_Inr:
  "log_position_at s = Inr s' \<longleftrightarrow>
   (\<exists>ps. deref (store s) (movement s) = Some (List_obj ps) \<and>
      s' = s\<lparr>store := (store s @ [Position_obj (current_time s) (current_location s)])
                [movement s := List_obj (ps @ [length (store s)])]\<rparr>)"
  by (auto simp: log_position_at_def new_def split: option.splits obj.splits)

lemma log_position_at_frame:
  "log_position_at s = Inr s' \<Longrightarrow> frame_inv h0 s \<Longrightarrow> frame_inv h0 s'"
  by (auto simp: log_position_at_Inr frame_inv_def intro!: prefix_update prefix_prefix)

lemma frame_inv_update [simp]:
  "frame_inv h0 (s\<lparr>current_time := t\<rparr>) = frame_inv h0 s"
  "frame_inv h0 (s\<lparr>current_location := l\<rparr>) = frame_inv h0 s"
  by (simp_all add: frame_inv_def)

lemma log_position_at_extends:
  assumes "frame_inv h0 s"
  shows "case log_position_at s of Inl (e, h') \<Rightarrow> prefix h0 h' | Inr s' \<Rightarrow> frame_inv h0 s'"
proof (cases "log_position_at s")
  case (Inl eh)
  with assms show ?thesis
    by (cases eh) (auto dest: log_position_at_Inl simp: frame_inv_def)
next
  case (Inr s')
  with assms show ?thesis
    by (simp add: log_position_at_frame)
qed

lemma sum_case_cases:
  "(\<And>e. x = Inl e \<Longrightarrow> case_sum P Q (f e)) \<Longrightarrow> (\<And>y. x = Inr y \<Longrightarrow> case_sum P Q (g y)) \<Longrightarrow>
   case_sum P Q (case_sum f g x)"
  by (cases x) simp_all

lemma loop_body_at_extends:
  assumes "frame_inv h0 s"
  shows "case loop_body_at timetable velocity network i s of
           Inl (e, h') \<Rightarrow> prefix h0 h'
         | Inr s' \<Rightarrow> frame_inv h0 s'"
proof -
  have here: "prefix h0 (store s)"
    using assms by (simp add: frame_inv_def)
  have moved: "frame_inv h0 (s\<lparr>current_time := t, current_location := l\<rparr>)" for t l
    using assms by simp
  show ?thesis
    unfolding loop_body_at_def Let_def
  proof (intro sum_case_cases, simp_all add: here)
    fix t l eh
    assume "log_position_at (s\<lparr>current_time := t, current_location := l\<rparr>) = Inl eh"
    with log_position_at_extends [OF moved [where t = t and l = l]]
    show "case eh of (e, h') \<Rightarrow> prefix h0 h'"
      by simp
  next
    fix t l d s3
    assume "log_position_at (s\<lparr>current_time := t, current_location := l\<rparr>) = Inr s3"
    with log_position_at_extends [OF moved [where t = t and l = l]]
    have "frame_inv h0 (s3\<lparr>current_time := current_time s3 + d\<rparr>)"
      by simp
    then show "case log_position_at (s3\<lparr>current_time := current_time s3 + d\<rparr>) of
        Inl (e, h') \<Rightarrow> prefix h0 h' | Inr s' \<Rightarrow> frame_inv h0 s'"
      by (rule log_position_at_extends)
  qed
qed

lemma for_range_extends:
  assumes "frame_inv h0 s"
  shows "case for_range (loop_body_at timetable velocity network) is s of
           Inl (e, h') \<Rightarrow> prefix h0 h'
         | Inr s' \<Rightarrow> frame_inv h0 s'"
  using assms
proof (induction "is" arbitrary: s)
  case Nil
  then show ?case by simp
next
  case (Cons i rest)
  show ?case
  proof (cases "loop_body_at timetable velocity network i s")
    case (Inl eh)
    with loop_body_at_extends [OF Cons.prems, of timetable velocity network i] show ?thesis
      by simp
  next
    case (Inr s1)
    with loop_body_at_extends [OF Cons.prems, of timetable velocity network i]
    have "frame_inv h0 s1"
      by simp
    from Cons.IH [OF this] Inr show ?thesis
      by simp
  qed
qed

lemma get_train_movement_at_extends:
  "case get_train_movement_at h0 timetable velocity network of
     Inl (e, h') \<Rightarrow> prefix h0 h'
   | Inr (r, h') \<Rightarrow> prefix h0 h' \<and> length h0 \<le> r"
proof -
  have start: "frame_inv h0 \<lparr>movement = length h0, current_time = t, current_location = l,
      store = h0 @ [List_obj []]\<rparr>" for t l
    by (simp add: frame_inv_def)
  show ?thesis
    unfolding get_train_movement_at_def new_def prod.case Let_def
  proof (intro sum_case_cases, simp_all)
    fix t l eh
    assume "log_position_at \<lparr>movement = length h0, current_time = t, current_location = l,
      store = h0 @ [List_obj []]\<rparr> = Inl eh"
    with log_position_at_extends [OF start [where t = t and l = l]]
    show "case eh of (e, h') \<Rightarrow> prefix h0 h'"
      by simp
  next
    fix t l s0
    assume "log_position_at \<lparr>movement = length h0, current_time = t, current_location = l,
      store = h0 @ [List_obj []]\<rparr> = Inr s0"
    with log_position_at_extends [OF start [where t = t and l = l]]
    show "prefix h0 (store s0)"
      by (simp add: frame_inv_def)
    then show "prefix h0 (store s0)" .
  next
    fix t l s0 n eh
    assume "log_position_at \<lparr>movement = length h0, current_time = t, current_location = l,
      store = h0 @ [List_obj []]\<rparr> = Inr s0"
    with log_position_at_extends [OF start [where t = t and l = l]] have "frame_inv h0 s0"
      by simp
    from for_range_extends [OF this, of timetable velocity network "[0..<n]"]
    have r: "case for_range (loop_body_at timetable velocity network) [0..<n] s0 of
        Inl (e, h') \<Rightarrow> prefix h0 h' | Inr s' \<Rightarrow> frame_inv h0 s'" .
    {
      assume "for_range (loop_body_at timetable velocity network) [0..<n] s0 = Inl eh"
      with r show "case eh of (e, h') \<Rightarrow> prefix h0 h'"
        by simp
    }
    {
      fix s
      assume "for_range (loop_body_at timetable velocity network) [0..<n] s0 = Inr s"
      with r show "prefix h0 (store s) \<and> length h0 \<le> movement s"
        by (simp add: frame_inv_def)
    }
  qed
qed

section \<open>The heap function computes what the function on values computes\<close>

lemma movement_at_iff:
  "movement_at h r m \<longleftrightarrow>
   (\<exists>rs. deref h r = Some (List_obj rs) \<and> list_all2 (position_at h) rs m)"
  by (auto simp: movement_at_def split: option.splits obj.splits)

lemma allocated_since_iff:
  "allocated_since n h r \<longleftrightarrow>
   n \<le> r \<and> (\<exists>rs. deref h r = Some (List_obj rs) \<and> list_all (\<lambda>p. n \<le> p) rs)"
  by (auto simp: allocated_since_def split: option.splits obj.splits)

lemma sim_update:
  "sim h0 s ps \<Longrightarrow>
   sim h0 (s\<lparr>current_time := t, current_location := l\<rparr>)
     (ps\<lparr>current_time := t, current_location := l\<rparr>)"
  "sim h0 s ps \<Longrightarrow>
   sim h0 (s\<lparr>current_time := current_time s + d\<rparr>) (ps\<lparr>current_time := current_time ps + d\<rparr>)"
  by (simp_all add: sim_def)

lemma sim_log:
  assumes "sim h0 s ps"
  shows "\<exists>s'. log_position_at s = Inr s' \<and> sim h0 s' (log_position ps)"
proof -
  let ?h = "store s" and ?mv = "movement s"
  from assms have f: "frame_inv h0 s"
    and ct: "current_time s = current_time ps" and cl: "current_location s = current_location ps"
    by (simp_all add: sim_def)
  from assms obtain rs where rs: "deref ?h ?mv = Some (List_obj rs)"
    and ps: "list_all2 (position_at ?h) rs (movement ps)"
    by (auto simp: sim_def movement_at_iff)
  from assms rs have fresh: "list_all (\<lambda>p. length h0 \<le> p) rs"
    by (auto simp: sim_def allocated_since_iff)
  define h' where "h' = (?h @ [Position_obj (current_time s) (current_location s)])
      [?mv := List_obj (rs @ [length ?h])]"
  define s' where "s' = s\<lparr>store := h'\<rparr>"
  from rs have run: "log_position_at s = Inr s'"
    by (simp add: log_position_at_Inr s'_def h'_def)
  from rs have mv: "?mv < length ?h"
    by (simp add: deref_Some)
  have list: "deref h' ?mv = Some (List_obj (rs @ [length ?h]))"
    using mv by (simp add: h'_def deref_Some)
  have new: "deref h' (length ?h) = Some (Position_obj (current_time s) (current_location s))"
    using mv by (simp add: h'_def deref_Some nth_append)
  have old: "position_at h' r q" if "position_at ?h r q" for r q
  proof -
    from that have r: "r < length ?h"
      and at: "?h ! r = Position_obj (time q) (location q)"
      by (simp_all add: position_at_def deref_Some)
    from rs have "?h ! ?mv = List_obj rs"
      by (simp add: deref_Some)
    with at have "r \<noteq> ?mv"
      by auto
    with r at show ?thesis
      by (simp add: position_at_def deref_Some h'_def nth_append)
  qed
  from ps have "list_all2 (position_at h') rs (movement ps)"
    by (rule list_all2_mono) (rule old)
  moreover have "position_at h' (length ?h)
      \<lparr>time = current_time ps, location = current_location ps\<rparr>"
    using new by (simp add: position_at_def ct cl)
  ultimately have "list_all2 (position_at h') (rs @ [length ?h])
      (movement ps @ [\<lparr>time = current_time ps, location = current_location ps\<rparr>])"
    by (simp add: list_all2_appendI)
  with list have m: "movement_at (store s') (movement s') (movement (log_position ps))"
    by (auto simp: movement_at_iff s'_def log_position_def)
  from f have "length h0 \<le> length ?h"
    by (auto simp: frame_inv_def prefix_def)
  with fresh f list have a: "allocated_since (length h0) (store s') (movement s')"
    by (auto simp: allocated_since_iff s'_def frame_inv_def)
  from log_position_at_frame [OF run f] m a ct cl have "sim h0 s' (log_position ps)"
    by (simp add: sim_def s'_def log_position_def)
  with run show ?thesis
    by blast
qed

lemma timetable_reads:
  assumes "timetable_at h r timetable"
  shows "attr_departure_station h r = Inr (departure_station timetable)"
    and "attr_departure_time h r = Inr (departure_time timetable)"
    and "\<exists>st. attr_stops h r = Inr st \<and> len_at h st = Inr (length (stops timetable)) \<and>
      (\<forall>i < length (stops timetable). \<exists>d. getitem_at h st i = Inr d \<and>
         attr_name h d = Inr (name (stops timetable ! i)) \<and>
         attr_dwell_time h d = Inr (dwell_time (stops timetable ! i)))"
proof -
  from assms obtain st rs where
    t: "deref h r = Some (Timetable_obj st (departure_station timetable) (departure_time timetable))"
    and l: "deref h st = Some (List_obj rs)"
    and a: "list_all2 (stop_at h) rs (stops timetable)"
    by (auto simp: timetable_at_iff)
  from t show "attr_departure_station h r = Inr (departure_station timetable)"
    and "attr_departure_time h r = Inr (departure_time timetable)"
    by (simp_all add: attr_departure_station_def attr_departure_time_def)
  from a have len: "length rs = length (stops timetable)"
    by (rule list_all2_lengthD)
  have "\<exists>d. getitem_at h st i = Inr d \<and>
         attr_name h d = Inr (name (stops timetable ! i)) \<and>
         attr_dwell_time h d = Inr (dwell_time (stops timetable ! i))"
    if "i < length (stops timetable)" for i
  proof -
    from that len have i: "i < length rs" by simp
    from list_all2_nthD [OF a i] have "stop_at h (rs ! i) (stops timetable ! i)" .
    with l i show ?thesis
      by (simp add: getitem_at_def list_getitem_def attr_name_def attr_dwell_time_def stop_at_def)
  qed
  with t l len show "\<exists>st. attr_stops h r = Inr st \<and> len_at h st = Inr (length (stops timetable)) \<and>
      (\<forall>i < length (stops timetable). \<exists>d. getitem_at h st i = Inr d \<and>
         attr_name h d = Inr (name (stops timetable ! i)) \<and>
         attr_dwell_time h d = Inr (dwell_time (stops timetable ! i)))"
    by (simp add: attr_stops_def len_at_def)
qed

lemma network_reads:
  "network_at h r network \<Longrightarrow> lookup_at h r station = dict_getitem network station"
  by (simp add: network_at_def lookup_at_def)

lemma sim_loop_body:
  assumes tt: "timetable_at h0 t timetable" and nw: "network_at h0 n network"
    and s: "sim h0 s ps" and i: "i < length (stops timetable)"
  shows "case loop_body_at t velocity n i s of
      Inl (e, h') \<Rightarrow> loop_body timetable velocity network i ps = Inl e
    | Inr s' \<Rightarrow> \<exists>ps'. loop_body timetable velocity network i ps = Inr ps' \<and> sim h0 s' ps'"
proof -
  from s have pre: "prefix h0 (store s)"
    and cl: "current_location s = current_location ps" and ct: "current_time s = current_time ps"
    by (simp_all add: sim_def frame_inv_def)
  from timetable_reads(3) [OF timetable_at_prefix [OF pre tt]] i obtain st d where
    reads: "attr_stops (store s) t = Inr st" "getitem_at (store s) st i = Inr d"
      "attr_name (store s) d = Inr (name (stops timetable ! i))"
      "attr_dwell_time (store s) d = Inr (dwell_time (stops timetable ! i))"
    by blast
  note look = network_reads [OF network_at_prefix [OF pre nw]]
  let ?stop = "stops timetable ! i"
  show ?thesis
  proof (cases "network (name ?stop)")
    case None
    with i show ?thesis
      by (simp add: loop_body_at_def loop_body_def reads look dict_getitem_def list_getitem_def)
  next
    case (Some km)
    show ?thesis
    proof (cases "velocity = 0")
      case True
      with Some i show ?thesis
        by (simp add: loop_body_at_def loop_body_def reads look dict_getitem_def list_getitem_def
            truediv_def)
    next
      case False
      let ?t = "current_time ps + \<bar>km - current_location ps\<bar> / velocity * 60"
      from sim_log [OF sim_update(1) [OF s, where t = ?t and l = km]] obtain s3 where
        s3: "log_position_at (s\<lparr>current_time := ?t, current_location := km\<rparr>) = Inr s3"
        and sim3: "sim h0 s3 (log_position (ps\<lparr>current_time := ?t, current_location := km\<rparr>))"
        by blast
      let ?p3 = "log_position (ps\<lparr>current_time := ?t, current_location := km\<rparr>)"
      from sim_log [OF sim_update(2) [OF sim3, of "dwell_time ?stop"]] obtain s5 where
        s5: "log_position_at (s3\<lparr>current_time := current_time s3 + dwell_time ?stop\<rparr>) = Inr s5"
        and sim5: "sim h0 s5 (log_position (?p3\<lparr>current_time := current_time ?p3 + dwell_time ?stop\<rparr>))"
        by blast
      have left: "loop_body_at t velocity n i s = Inr s5"
        using Some False s3 s5
        by (simp add: loop_body_at_def reads look dict_getitem_def truediv_def Let_def cl ct)
      have right: "loop_body timetable velocity network i ps =
          Inr (log_position (?p3\<lparr>current_time := current_time ?p3 + dwell_time ?stop\<rparr>))"
        using Some False i
        by (simp add: loop_body_def dict_getitem_def list_getitem_def truediv_def Let_def)
      from left right sim5 show ?thesis
        by simp
    qed
  qed
qed

lemma sim_for_range:
  assumes tt: "timetable_at h0 t timetable" and nw: "network_at h0 n network"
  shows "sim h0 s ps \<Longrightarrow> \<forall>i \<in> set is. i < length (stops timetable) \<Longrightarrow>
    (case for_range (loop_body_at t velocity n) is s of
      Inl (e, h') \<Rightarrow> for_range (loop_body timetable velocity network) is ps = Inl e
    | Inr s' \<Rightarrow> \<exists>ps'. for_range (loop_body timetable velocity network) is ps = Inr ps' \<and>
        sim h0 s' ps')"
proof (induction "is" arbitrary: s ps)
  case Nil
  then show ?case by simp
next
  case (Cons i rest)
  from Cons.prems(2) have i: "i < length (stops timetable)"
    and rest: "\<forall>i \<in> set rest. i < length (stops timetable)"
    by simp_all
  note body = sim_loop_body [OF tt nw Cons.prems(1) i, of velocity]
  show ?case
  proof (cases "loop_body_at t velocity n i s")
    case (Inl eh)
    with body show ?thesis
      by (cases eh) simp
  next
    case (Inr s1)
    with body obtain ps1 where
      p: "loop_body timetable velocity network i ps = Inr ps1" and s1: "sim h0 s1 ps1"
      by auto
    from Inr have l: "for_range (loop_body_at t velocity n) (i # rest) s =
        for_range (loop_body_at t velocity n) rest s1"
      by simp
    from p have r: "for_range (loop_body timetable velocity network) (i # rest) ps =
        for_range (loop_body timetable velocity network) rest ps1"
      by simp
    show ?thesis
      unfolding l r by (rule Cons.IH [OF s1 rest])
  qed
qed

lemma sim_get_train_movement:
  assumes tt: "timetable_at h0 t timetable" and nw: "network_at h0 n network"
  shows "case get_train_movement_at h0 t velocity n of
      Inl (e, h') \<Rightarrow> get_train_movement timetable velocity network = Inl e
    | Inr (r, h') \<Rightarrow> \<exists>m. get_train_movement timetable velocity network = Inr m \<and>
        movement_at h' r m \<and> allocated_since (length h0) h' r"
proof -
  let ?h = "h0 @ [List_obj []]"
  have pre: "prefix h0 ?h"
    by simp
  note reads = timetable_reads(1,2) [OF timetable_at_prefix [OF pre tt]]
  note look = network_reads [OF network_at_prefix [OF pre nw]]
  show ?thesis
  proof (cases "network (departure_station timetable)")
    case None
    then show ?thesis
      by (simp add: get_train_movement_at_def get_train_movement_def new_def reads look
          dict_getitem_def)
  next
    case (Some km)
    let ?s = "\<lparr>movement = length h0, current_time = departure_time timetable,
      current_location = km, store = ?h\<rparr>"
    let ?ps = "\<lparr>movement = [], current_time = departure_time timetable, current_location = km\<rparr>"
    have "sim h0 ?s ?ps"
      by (simp add: sim_def frame_inv_def movement_at_iff allocated_since_iff deref_Some nth_append)
    from sim_log [OF this] obtain s0 where
      s0: "log_position_at ?s = Inr s0" and sim0: "sim h0 s0 (log_position ?ps)"
      by blast
    from sim0 have "prefix h0 (store s0)"
      by (simp add: sim_def frame_inv_def)
    from timetable_reads(3) [OF timetable_at_prefix [OF this tt]] obtain st where
      st: "attr_stops (store s0) t = Inr st"
        "len_at (store s0) st = Inr (length (stops timetable))"
      by blast
    have "\<forall>i \<in> set [0..<length (stops timetable)]. i < length (stops timetable)"
      by simp
    note loop = sim_for_range [OF tt nw sim0 this, of velocity]
    have left: "get_train_movement_at h0 t velocity n =
        (case for_range (loop_body_at t velocity n) [0..<length (stops timetable)] s0 of
           Inl eh \<Rightarrow> Inl eh | Inr s \<Rightarrow> Inr (movement s, store s))"
      using Some s0 st
      by (simp add: get_train_movement_at_def new_def reads look dict_getitem_def)
    have right: "get_train_movement timetable velocity network =
        (case for_range (loop_body timetable velocity network)
               [0..<length (stops timetable)] (log_position ?ps) of
           Inl e \<Rightarrow> Inl e | Inr s \<Rightarrow> Inr (movement s))"
      using Some by (simp add: get_train_movement_def dict_getitem_def)
    show ?thesis
    proof (cases "for_range (loop_body_at t velocity n) [0..<length (stops timetable)] s0")
      case (Inl eh)
      with loop show ?thesis
        unfolding left right by (cases eh) simp
    next
      case (Inr s1)
      with loop show ?thesis
        unfolding left right by (auto simp: sim_def)
    qed
  qed
qed

section \<open>Rounding to the nearest double\<close>

lemma expo_from_bounds: "- 1022 \<le> expo_from n x \<and> expo_from n x \<le> int n - 1022"
  by (induction n) auto

lemma expo_from_eq:
  "- 1022 \<le> e \<Longrightarrow> e \<le> int n - 1022 \<Longrightarrow> (e = - 1022 \<or> 2 powi e \<le> \<bar>x\<bar>) \<Longrightarrow>
   (e = int n - 1022 \<or> \<bar>x\<bar> < 2 powi (e + 1)) \<Longrightarrow> expo_from n x = e"
proof (induction n)
  case 0
  then show ?case by simp
next
  case (Suc n)
  show ?case
  proof (cases "2 powi (int n - 1021) \<le> \<bar>x\<bar>")
    case True
    have "e = int n - 1021"
    proof (rule ccontr)
      assume "e \<noteq> int n - 1021"
      with Suc.prems(2,4) have lt: "\<bar>x\<bar> < 2 powi (e + 1)" and "e + 1 \<le> int n - 1021"
        by auto
      then have "(2::real) powi (e + 1) \<le> 2 powi (int n - 1021)"
        by (intro power_int_increasing) auto
      with True lt show False by linarith
    qed
    with True show ?thesis by simp
  next
    case False
    have "e \<noteq> int n - 1021"
    proof
      assume e: "e = int n - 1021"
      with Suc.prems(3) False have "e = - 1022" by auto
      with e Suc.prems show False by auto
    qed
    with Suc.prems(2) have le: "e \<le> int n - 1022" by simp
    have "e = int n - 1022 \<or> \<bar>x\<bar> < 2 powi (e + 1)"
    proof (cases "e = int n - 1022")
      case True
      then show ?thesis by simp
    next
      case False
      with Suc.prems(4) le show ?thesis by auto
    qed
    from Suc.IH [OF Suc.prems(1) le Suc.prems(3) this] False show ?thesis
      by simp
  qed
qed

lemma expo_eq:
  "- 1022 \<le> e \<Longrightarrow> e \<le> 1023 \<Longrightarrow> (e = - 1022 \<or> 2 powi e \<le> \<bar>x\<bar>) \<Longrightarrow>
   (e = 1023 \<or> \<bar>x\<bar> < 2 powi (e + 1)) \<Longrightarrow> expo x = e"
  unfolding expo_def by (rule expo_from_eq) auto

lemma expo_bounds: "- 1022 \<le> expo x" "expo x \<le> 1023"
  using expo_from_bounds [of 2045 x] by (simp_all add: expo_def)

lemma expo_from_lower: "- 1022 < expo_from n x \<Longrightarrow> 2 powi (expo_from n x) \<le> \<bar>x\<bar>"
  by (induction n) (auto split: if_splits)

lemma expo_from_upper: "expo_from n x < int n - 1022 \<Longrightarrow> \<bar>x\<bar> < 2 powi (expo_from n x + 1)"
proof (induction n)
  case 0
  then show ?case by simp
next
  case (Suc n)
  show ?case
  proof (cases "2 powi (int n - 1021) \<le> \<bar>x\<bar>")
    case True
    with Suc.prems show ?thesis by simp
  next
    case False
    show ?thesis
    proof (cases "expo_from n x < int n - 1022")
      case True
      from Suc.IH [OF this] False show ?thesis by simp
    next
      case f: False
      with expo_from_bounds [of n x] have eq: "expo_from n x + 1 = int n - 1021" by simp
      from False have lt: "\<bar>x\<bar> < 2 powi (int n - 1021)" by simp
      have "\<bar>x\<bar> < 2 powi (expo_from n x + 1)"
        unfolding eq by (rule lt)
      with False show ?thesis by simp
    qed
  qed
qed

lemma expo_lower: "- 1022 < expo x \<Longrightarrow> 2 powi (expo x) \<le> \<bar>x\<bar>"
  unfolding expo_def by (rule expo_from_lower)

lemma expo_upper: "expo x < 1023 \<Longrightarrow> \<bar>x\<bar> < 2 powi (expo x + 1)"
  unfolding expo_def using expo_from_upper [of 2045 x] by simp

lemma rne_of_int [simp]: "rne (of_int n) = n"
  by (simp add: rne_def)

lemma rne_bounds: "\<lfloor>q\<rfloor> \<le> rne q" "rne q \<le> \<lceil>q\<rceil>"
  by (auto simp: rne_def Let_def ceiling_altdef)


lemma power_int_2_less_cancel: "(2::real) powi a < 2 powi b \<Longrightarrow> a < b"
proof (rule ccontr)
  assume lt: "(2::real) powi a < 2 powi b" and "\<not> a < b"
  then have "(2::real) powi b \<le> 2 powi a"
    by (intro power_int_increasing) auto
  with lt show False by simp
qed

lemma fl_finite: "\<bar>round_nearest x\<bar> \<le> max_f64 \<Longrightarrow> fl x = Fin (round_nearest x)"
  by (auto simp: fl_def Let_def)

lemma round_nearest_dyadic:
  assumes n: "\<bar>n\<bar> < 2 ^ 53" and k: "- 1074 \<le> k"
  shows "round_nearest (of_int n * 2 powi k) = of_int n * 2 powi k"
proof -
  define x :: real where "x = of_int n * 2 powi k"
  define e where "e = expo x"
  have ek: "e - 52 \<le> k"
  proof (cases "e = - 1022")
    case True
    with k show ?thesis by simp
  next
    case False
    with expo_bounds(1) [of x] have "- 1022 < expo x"
      by (simp add: e_def)
    from expo_lower [OF this] have "2 powi e \<le> \<bar>x\<bar>"
      by (simp add: e_def)
    also have "\<bar>x\<bar> = \<bar>of_int n\<bar> * 2 powi k"
      by (simp add: x_def abs_mult)
    also have "\<dots> < 2 ^ 53 * 2 powi k"
    proof (rule mult_strict_right_mono)
      from n have "real_of_int \<bar>n\<bar> < real_of_int (2 ^ 53)"
        by (simp only: of_int_less_iff)
      then show "\<bar>real_of_int n\<bar> < 2 ^ 53" by simp
    qed simp
    also have "\<dots> = 2 powi (53 + k)"
      by (simp add: power_int_add)
    finally have "e < 53 + k"
      by (rule power_int_2_less_cancel)
    then show ?thesis by simp
  qed
  define j where "j = nat (k - (e - 52))"
  from ek have "k = int j + (e - 52)"
    by (simp add: j_def)
  then have "(2::real) powi k = 2 ^ j * 2 powi (e - 52)"
    by (simp add: power_int_add)
  then have q: "x / 2 powi (e - 52) = of_int (n * 2 ^ j)"
    by (simp add: x_def)
  have "round_nearest x = of_int (n * 2 ^ j) * 2 powi (e - 52)"
    unfolding round_nearest_def e_def [symmetric] q by (simp only: rne_of_int)
  also have "\<dots> = x * (2 powi (e - 52) / 2 powi (e - 52))"
    using q by (simp add: field_simps)
  finally show ?thesis
    by (simp add: x_def)
qed

lemma fl_dyadic:
  assumes n: "\<bar>n\<bar> < 2 ^ 53" and k: "- 1074 \<le> k" "k \<le> 971"
  shows "fl (of_int n * 2 powi k) = Fin (of_int n * 2 powi k)"
proof -
  from n have "\<bar>n\<bar> \<le> 2 ^ 53 - 1" by simp
  then have "real_of_int \<bar>n\<bar> \<le> real_of_int (2 ^ 53 - 1)"
    by (simp only: of_int_le_iff)
  then have a: "\<bar>real_of_int n\<bar> \<le> 2 ^ 53 - 1" by simp
  from k(2) have b: "(2::real) powi k \<le> 2 powi 971"
    by (intro power_int_increasing) auto
  have "\<bar>of_int n * 2 powi k\<bar> = \<bar>real_of_int n\<bar> * 2 powi k"
    by (simp add: abs_mult)
  also from a b have "\<dots> \<le> (2 ^ 53 - 1) * 2 powi 971"
    by (intro mult_mono) auto
  finally have "\<bar>of_int n * 2 powi k\<bar> \<le> max_f64"
    by (simp add: max_f64_def)
  then show ?thesis
    using fl_finite [of "of_int n * 2 powi k"] by (simp add: round_nearest_dyadic [OF n k(1)])
qed

lemma fl_eval:
  assumes "- 1022 \<le> e" "e \<le> 1023" "e = - 1022 \<or> 2 powi e \<le> \<bar>x\<bar>" "\<bar>x\<bar> < 2 powi (e + 1)"
    and "rne (x / 2 powi (e - 52)) = n" and "\<bar>of_int n * 2 powi (e - 52)\<bar> \<le> max_f64"
  shows "fl x = Fin (of_int n * 2 powi (e - 52))"
proof -
  from assms(1-4) have "expo x = e"
    by (intro expo_eq) auto
  with assms(5) have "round_nearest x = of_int n * 2 powi (e - 52)"
    by (simp add: round_nearest_def)
  with assms(6) fl_finite [of x] show ?thesis
    by simp
qed

lemma expo_minus [simp]: "expo (- x) = expo x"
proof -
  have "expo_from n (- x) = expo_from n x" for n
    by (induction n) simp_all
  then show ?thesis by (simp add: expo_def)
qed


lemma rne_abs_le:
  assumes "\<bar>q\<bar> < of_int b"
  shows "\<bar>rne q\<bar> \<le> b"
proof -
  from assms have "- of_int b < q" "q < of_int b"
    by (simp_all add: abs_less_iff)
  then have "- b \<le> \<lfloor>q\<rfloor>" "\<lceil>q\<rceil> \<le> b"
    by (simp_all add: le_floor_iff ceiling_le_iff)
  with rne_bounds [of q] show ?thesis
    by (simp add: abs_le_iff)
qed

lemma fl_idem:
  assumes "fl x = Fin r"
  shows "fl r = Fin r"
proof -
  define e where "e = expo x"
  define m where "m = rne (x / 2 powi (e - 52))"
  have rn: "round_nearest x = of_int m * 2 powi (e - 52)"
    by (simp add: round_nearest_def m_def e_def)
  from assms have r: "r = of_int m * 2 powi (e - 52)" and le: "\<bar>of_int m * 2 powi (e - 52)\<bar> \<le> max_f64"
    by (auto simp: fl_def Let_def rn split: if_splits)
  have e: "- 1022 \<le> e" "e \<le> 1023"
    using expo_bounds [of x] by (simp_all add: e_def)
  have m: "\<bar>m\<bar> \<le> 2 ^ 53"
  proof (cases "e = 1023")
    case True
    with le have "\<bar>real_of_int m\<bar> * 2 ^ 971 \<le> (2 ^ 53 - 1) * 2 ^ 971"
      by (simp add: abs_mult max_f64_def)
    then have "\<bar>real_of_int m\<bar> \<le> 2 ^ 53 - 1"
      by simp
    then have "real_of_int \<bar>m\<bar> \<le> real_of_int (2 ^ 53)"
      by simp
    then show ?thesis
      by (simp only: of_int_le_iff)
  next
    case False
    with e have "expo x < 1023"
      by (simp add: e_def)
    from expo_upper [OF this] have "\<bar>x\<bar> < 2 powi (e + 1)"
      by (simp add: e_def)
    also have "\<dots> = 2 powi (53 + (e - 52))"
      by (rule arg_cong [where f = "power_int 2"]) simp
    also have "\<dots> = 2 powi 53 * 2 powi (e - 52)"
      by (rule power_int_add) simp
    finally have "\<bar>x\<bar> / 2 powi (e - 52) < 2 ^ 53"
      by (simp add: field_simps)
    then have "\<bar>x / 2 powi (e - 52)\<bar> < of_int (2 ^ 53)"
      by simp
    then show ?thesis
      unfolding m_def by (rule rne_abs_le)
  qed
  show ?thesis
  proof (cases "\<bar>m\<bar> < 2 ^ 53")
    case True
    from e have "- 1074 \<le> e - 52" "e - 52 \<le> 971"
      by simp_all
    from fl_dyadic [OF True this] show ?thesis
      by (simp add: r)
  next
    case False
    with m have big: "\<bar>m\<bar> = 2 ^ 53"
      by simp
    have "e \<noteq> 1023"
    proof
      assume "e = 1023"
      with le have "\<bar>real_of_int m\<bar> * 2 ^ 971 \<le> (2 ^ 53 - 1) * 2 ^ 971"
        by (simp add: abs_mult max_f64_def)
      then have "\<bar>real_of_int m\<bar> \<le> 2 ^ 53 - 1"
        by simp
      moreover from big have "\<bar>real_of_int m\<bar> = 2 ^ 53"
        by (metis of_int_abs of_int_numeral of_int_power)
      ultimately show False
        by simp
    qed
    with e have k: "- 1074 \<le> e - 51" "e - 51 \<le> 971"
      by simp_all
    define h where "h = m div 2"
    from big have "m = 9007199254740992 \<or> m = - 9007199254740992"
      by (simp add: abs_if split: if_splits)
    then have h: "m = 2 * h" "\<bar>h\<bar> < 2 ^ 53"
      by (auto simp: h_def)
    have "(2::real) powi (e - 51) = 2 powi (1 + (e - 52))"
      by (rule arg_cong [where f = "power_int 2"]) simp
    also have "\<dots> = 2 powi 1 * 2 powi (e - 52)"
      by (rule power_int_add) simp
    finally have "(2::real) powi (e - 51) = 2 * 2 powi (e - 52)"
      by simp
    then have "r = of_int h * 2 powi (e - 51)"
      by (simp add: r h(1))
    with fl_dyadic [OF h(2) k] show ?thesis
      by simp
  qed
qed





lemma is_f64_fl: "is_f64 (fl x)"
  by (cases "fl x") (auto simp: is_f64_def dest: fl_idem)

lemma is_f64_fadd: "is_f64 (fadd x y)"
  by (cases x; cases y) (simp_all add: is_f64_fl, simp_all add: is_f64_def)

lemma fadd_zero_right: "is_f64 x \<Longrightarrow> fadd x (Fin 0) = x"
  by (cases x) (simp_all add: is_f64_def)

lemma fl_int_small: "\<bar>n\<bar> < 2 ^ 53 \<Longrightarrow> fl (of_int n) = Fin (of_int n)"
  using fl_dyadic [of n 0] by simp

lemma fl_zero: "fl 0 = Fin 0"
  using fl_int_small [of 0] by simp



section \<open>Properties of the loop on doubles\<close>

lemma loop_body_visit_f64:
  "i < length (stops timetable) \<Longrightarrow>
   loop_body_f64 timetable velocity network i s =
   visit_f64 velocity network (stops timetable ! i) s"
  by (simp add: loop_body_f64_def visit_f64_def list_getitem_def dict_getitem_def
      float_truediv_def log_position_def Let_def split: option.splits)

lemma for_range_visit_all_f64:
  "\<forall>i \<in> set is. i < length (stops timetable) \<Longrightarrow>
   for_range (loop_body_f64 timetable velocity network) is s =
   visit_all_f64 velocity network (map ((!) (stops timetable)) is) s"
  by (induction "is" arbitrary: s) (simp_all add: loop_body_visit_f64 split: sum.splits)

lemma get_train_movement_f64_visit_all:
  "get_train_movement_f64 timetable velocity network =
     (case network (departure_station timetable) of
        None \<Rightarrow> Inl (KeyError (departure_station timetable))
      | Some km \<Rightarrow>
          (case visit_all_f64 velocity network (stops timetable) (start timetable km) of
             Inl e \<Rightarrow> Inl e
           | Inr s \<Rightarrow> Inr (movement s)))"
proof -
  have "for_range (loop_body_f64 timetable velocity network) [0..<length (stops timetable)] s =
        visit_all_f64 velocity network (stops timetable) s" for s
    using for_range_visit_all_f64
      [of "[0..<length (stops timetable)]" timetable velocity network s]
    by (simp add: map_nth)
  then show ?thesis
    by (simp add: get_train_movement_f64_def dict_getitem_def log_position_def start_def
        split: option.splits)
qed

lemma visit_f64_Inr:
  "visit_f64 velocity network stop s = Inr s' \<longleftrightarrow>
   velocity \<noteq> Fin 0 \<and> (\<exists>km. network (name stop) = Some km \<and>
     s' = \<lparr>movement = movement s @
            [\<lparr>time = arrival_f64 (current_time s) (current_location s) km velocity,
              location = km\<rparr>,
             \<lparr>time = fadd (arrival_f64 (current_time s) (current_location s) km velocity)
                       (dwell_time stop),
              location = km\<rparr>],
          current_time = fadd (arrival_f64 (current_time s) (current_location s) km velocity)
                           (dwell_time stop),
          current_location = km\<rparr>)"
  by (auto simp: visit_f64_def arrival_f64_def Let_def split: option.splits)

lemma visit_all_f64_prefix:
  "visit_all_f64 velocity network xs s = Inr s' \<Longrightarrow>
   \<exists>ys. movement s' = movement s @ ys \<and> length ys = 2 * length xs"
proof (induction xs arbitrary: s)
  case Nil
  then show ?case by simp
next
  case (Cons stop rest)
  then obtain s1 where v: "visit_f64 velocity network stop s = Inr s1"
    and r: "visit_all_f64 velocity network rest s1 = Inr s'"
    by (auto split: sum.splits)
  from Cons.IH [OF r] obtain ys where
    ys: "movement s' = movement s1 @ ys" "length ys = 2 * length rest"
    by blast
  from v obtain a d where "movement s1 = movement s @ [a, d]"
    by (auto simp: visit_f64_Inr)
  with ys show ?case by simp
qed

lemma visit_f64_tracked: "visit_f64 velocity network stop s = Inr s' \<Longrightarrow> tracked s'"
  by (auto simp: visit_f64_Inr tracked_def)

lemma visit_all_f64_leg:
  "visit_all_f64 velocity network xs s = Inr s' \<Longrightarrow> k < length xs \<Longrightarrow> tracked s \<Longrightarrow>
   \<exists>km. network (name (xs ! k)) = Some km \<and>
     movement s' ! (length (movement s) + 2 * k) =
       \<lparr>time = arrival_f64 (time (movement s' ! (length (movement s) + 2 * k - 1)))
                 (location (movement s' ! (length (movement s) + 2 * k - 1))) km velocity,
        location = km\<rparr> \<and>
     movement s' ! (length (movement s) + 2 * k + 1) =
       \<lparr>time = fadd (time (movement s' ! (length (movement s) + 2 * k))) (dwell_time (xs ! k)),
        location = km\<rparr>"
proof (induction xs arbitrary: s k)
  case Nil
  then show ?case by simp
next
  case (Cons stop rest)
  then obtain s1 where v: "visit_f64 velocity network stop s = Inr s1"
    and r: "visit_all_f64 velocity network rest s1 = Inr s'"
    by (auto split: sum.splits)
  define a where "a = arrival_f64 (current_time s) (current_location s)"
  from v obtain km where km: "network (name stop) = Some km"
    and s1: "movement s1 = movement s @
        [\<lparr>time = a km velocity, location = km\<rparr>,
         \<lparr>time = fadd (a km velocity) (dwell_time stop), location = km\<rparr>]"
    by (auto simp: visit_f64_Inr a_def)
  from visit_all_f64_prefix [OF r] obtain ys where ys: "movement s' = movement s1 @ ys"
    by blast
  show ?case
  proof (cases k)
    case 0
    from Cons.prems(3) have n: "movement s \<noteq> []"
      and l: "last (movement s) = \<lparr>time = current_time s, location = current_location s\<rparr>"
      by (simp_all add: tracked_def)
    from n have "movement s' ! (length (movement s) - 1) = last (movement s)"
      by (simp add: ys s1 nth_append last_conv_nth)
    with l have prev: "movement s' ! (length (movement s) - 1) =
        \<lparr>time = current_time s, location = current_location s\<rparr>"
      by simp
    have arr: "movement s' ! length (movement s) = \<lparr>time = a km velocity, location = km\<rparr>"
      by (simp add: ys s1 nth_append)
    have dep: "movement s' ! Suc (length (movement s)) =
        \<lparr>time = fadd (a km velocity) (dwell_time stop), location = km\<rparr>"
      by (simp add: ys s1 nth_append)
    from 0 km prev arr dep show ?thesis by (simp add: a_def)
  next
    case (Suc j)
    with Cons.prems(2) have j: "j < length rest" by simp
    have len: "length (movement s1) = length (movement s) + 2"
      by (simp add: s1)
    from Cons.IH [OF r j visit_f64_tracked [OF v]] Suc len show ?thesis
      by (simp add: add.commute add.left_commute)
  qed
qed

lemma visit_all_f64_Inr_iff:
  "(\<exists>s'. visit_all_f64 velocity network xs s = Inr s') \<longleftrightarrow>
   (\<forall>x \<in> set xs. network (name x) \<noteq> None) \<and> (xs = [] \<or> velocity \<noteq> Fin 0)"
proof (induction xs arbitrary: s)
  case Nil
  then show ?case by simp
next
  case (Cons stop rest)
  have "(\<exists>s'. visit_all_f64 velocity network (stop # rest) s = Inr s') \<longleftrightarrow>
        (\<exists>s1. visit_f64 velocity network stop s = Inr s1 \<and>
              (\<exists>s'. visit_all_f64 velocity network rest s1 = Inr s'))"
    by (auto split: sum.splits)
  also have "\<dots> \<longleftrightarrow> (\<exists>s1. visit_f64 velocity network stop s = Inr s1) \<and>
        (\<forall>x \<in> set rest. network (name x) \<noteq> None) \<and> (rest = [] \<or> velocity \<noteq> Fin 0)"
    by (simp add: Cons.IH)
  also have "\<dots> \<longleftrightarrow> (\<forall>x \<in> set (stop # rest). network (name x) \<noteq> None) \<and>
        (stop # rest = [] \<or> velocity \<noteq> Fin 0)"
    by (auto simp: visit_f64_Inr)
  finally show ?case .
qed

lemma get_train_movement_f64_Inr:
  "get_train_movement_f64 timetable velocity network = Inr m \<longleftrightarrow>
   (\<exists>km s. network (departure_station timetable) = Some km \<and>
      visit_all_f64 velocity network (stops timetable) (start timetable km) = Inr s \<and>
      m = movement s)"
  by (auto simp: get_train_movement_f64_visit_all split: option.splits sum.splits)

lemma get_train_movement_f64_returns:
  "(\<exists>m. get_train_movement_f64 timetable velocity network = Inr m) \<longleftrightarrow>
   network (departure_station timetable) \<noteq> None \<and>
   (\<forall>x \<in> set (stops timetable). network (name x) \<noteq> None) \<and>
   (stops timetable = [] \<or> velocity \<noteq> Fin 0)"
proof -
  have "(\<exists>m. get_train_movement_f64 timetable velocity network = Inr m) \<longleftrightarrow>
        (\<exists>km. network (departure_station timetable) = Some km \<and>
           (\<exists>s. visit_all_f64 velocity network (stops timetable) (start timetable km) = Inr s))"
    by (auto simp: get_train_movement_f64_Inr)
  then show ?thesis
    by (auto simp: visit_all_f64_Inr_iff)
qed

lemma get_train_movement_f64_length:
  "get_train_movement_f64 timetable velocity network = Inr m \<Longrightarrow>
   length m = 1 + 2 * length (stops timetable)"
  by (auto simp: get_train_movement_f64_Inr start_def dest!: visit_all_f64_prefix)


lemma get_train_movement_f64_leg:
  assumes "get_train_movement_f64 timetable velocity network = Inr m"
    and "k < length (stops timetable)"
  shows "\<exists>km. network (name (stops timetable ! k)) = Some km \<and>
     m ! (2 * k + 1) =
       \<lparr>time = arrival_f64 (time (m ! (2 * k))) (location (m ! (2 * k))) km velocity,
        location = km\<rparr> \<and>
     m ! (2 * k + 2) =
       \<lparr>time = fadd (time (m ! (2 * k + 1))) (dwell_time (stops timetable ! k)),
        location = km\<rparr>"
proof -
  from assms(1) obtain km0 s where
    s: "visit_all_f64 velocity network (stops timetable) (start timetable km0) = Inr s"
    and m: "m = movement s"
    by (auto simp: get_train_movement_f64_Inr)
  have "length (movement (start timetable km0)) = 1"
    by (simp add: start_def)
  with visit_all_f64_leg [OF s assms(2) tracked_start] m show ?thesis
    by (simp add: add.commute)
qed

section \<open>Concrete runs on doubles\<close>


lemma absorbed_run:
  "get_train_movement_f64
     \<lparr>stops = [\<lparr>name = ''A'', dwell_time = Fin 1\<rparr>], departure_station = ''A'',
      departure_time = Fin (2 ^ 53)\<rparr>
     (Fin 60) [''A'' \<mapsto> Fin 0] =
   Inr [\<lparr>time = Fin (2 ^ 53), location = Fin 0\<rparr>, \<lparr>time = Fin (2 ^ 53), location = Fin 0\<rparr>,
        \<lparr>time = Fin (2 ^ 53), location = Fin 0\<rparr>]"
proof -
  define t :: real where "t = 2 ^ 53"
  from fl_dyadic [of 1 53] have s1: "fl t = Fin t"
    by (simp add: t_def)
  have "rne ((t + 1) / 2 powi (53 - 52)) = 2 ^ 52"
    by (simp add: rne_def Let_def t_def)
  from fl_eval [where e = 53 and x = "t + 1", OF _ _ _ _ this] have s2: "fl (t + 1) = Fin t"
    by (simp add: max_f64_def t_def)
  have "get_train_movement_f64
     \<lparr>stops = [\<lparr>name = ''A'', dwell_time = Fin 1\<rparr>], departure_station = ''A'',
      departure_time = Fin t\<rparr>
     (Fin 60) [''A'' \<mapsto> Fin 0] =
   Inr [\<lparr>time = Fin t, location = Fin 0\<rparr>, \<lparr>time = Fin t, location = Fin 0\<rparr>,
        \<lparr>time = Fin t, location = Fin 0\<rparr>]"
    by (simp add: get_train_movement_f64_visit_all start_def visit_f64_def Let_def fsub_def
        fl_zero s1 s2)
  then show ?thesis
    by (simp only: t_def)
qed

lemma tenth_run:
  "get_train_movement_f64
     \<lparr>stops = [\<lparr>name = ''A'', dwell_time = Fin 1\<rparr>], departure_station = ''A'',
      departure_time = Fin (3602879701896397 / 2 ^ 55)\<rparr>
     (Fin 60) [''A'' \<mapsto> Fin 0] =
   Inr [\<lparr>time = Fin (3602879701896397 / 2 ^ 55), location = Fin 0\<rparr>,
        \<lparr>time = Fin (3602879701896397 / 2 ^ 55), location = Fin 0\<rparr>,
        \<lparr>time = Fin (2476979795053773 / 2 ^ 51), location = Fin 0\<rparr>]"
proof -
  define t :: real where "t = 3602879701896397 / 2 ^ 55"
  define u :: real where "u = 2476979795053773 / 2 ^ 51"
  from fl_dyadic [of 3602879701896397 "- 55"] have s1: "fl t = Fin t"
    by (simp add: t_def)
  have "rne ((t + 1) / 2 powi (0 - 52)) = 4953959590107546"
    by (simp add: rne_def Let_def t_def)
  from fl_eval [where e = 0 and x = "t + 1", OF _ _ _ _ this] have s2: "fl (t + 1) = Fin u"
    by (simp add: max_f64_def t_def u_def)
  have "get_train_movement_f64
     \<lparr>stops = [\<lparr>name = ''A'', dwell_time = Fin 1\<rparr>], departure_station = ''A'',
      departure_time = Fin t\<rparr>
     (Fin 60) [''A'' \<mapsto> Fin 0] =
   Inr [\<lparr>time = Fin t, location = Fin 0\<rparr>, \<lparr>time = Fin t, location = Fin 0\<rparr>,
        \<lparr>time = Fin u, location = Fin 0\<rparr>]"
    by (simp add: get_train_movement_f64_visit_all start_def visit_f64_def Let_def fsub_def
        fl_zero s1 s2)
  then show ?thesis
    by (simp only: t_def u_def)
qed

lemma double_back_run_f64:
  "get_train_movement_f64
     \<lparr>stops = [\<lparr>name = ''E'', dwell_time = Fin 2\<rparr>, \<lparr>name = ''C'', dwell_time = Fin 0\<rparr>],
      departure_station = ''A'', departure_time = Fin 0\<rparr>
     (Fin 160) [''A'' \<mapsto> Fin 0, ''C'' \<mapsto> Fin 10, ''E'' \<mapsto> Fin 20] =
   Inr [\<lparr>time = Fin 0, location = Fin 0\<rparr>, \<lparr>time = Fin (15 / 2), location = Fin 20\<rparr>,
        \<lparr>time = Fin (19 / 2), location = Fin 20\<rparr>, \<lparr>time = Fin (53 / 4), location = Fin 10\<rparr>,
        \<lparr>time = Fin (53 / 4), location = Fin 10\<rparr>]"
proof -
  have a: "fl 20 = Fin 20" "fl (- 10) = Fin (- 10)"
    using fl_int_small [of 20] fl_int_small [of "- 10"] by simp_all
  have b: "fl (1 / 8) = Fin (1 / 8)" "fl (1 / 16) = Fin (1 / 16)"
    using fl_dyadic [of 1 "- 3"] fl_dyadic [of 1 "- 4"] by simp_all
  have c: "fl (15 / 2) = Fin (15 / 2)" "fl (19 / 2) = Fin (19 / 2)"
    using fl_dyadic [of 15 "- 1"] fl_dyadic [of 19 "- 1"] by simp_all
  have d: "fl (15 / 4) = Fin (15 / 4)" "fl (53 / 4) = Fin (53 / 4)"
    using fl_dyadic [of 15 "- 2"] fl_dyadic [of 53 "- 2"] by simp_all
  show ?thesis
    by (simp add: get_train_movement_f64_visit_all start_def visit_f64_def Let_def fsub_def
        a b c d)
qed


section \<open>The claims\<close>

text \<open>
  Claim C1. Whenever the departure station is in the network, a trajectory that
  \<^verbatim>\<open>get_train_movement\<close> returns is non-empty, and its first sample has the timetable's
  departure time and the network's coordinate of the departure station. A trajectory is
  returned as soon as every stop resolves too and the velocity is not zero (or the route is
  empty).
\<close>

theorem first_sample_is_departure:
  "network (departure_station timetable) = Some km \<Longrightarrow>
   (get_train_movement timetable velocity network = Inr m \<longrightarrow>
      m \<noteq> [] \<and> time (hd m) = departure_time timetable \<and> location (hd m) = km) \<and>
   ((\<forall>x \<in> set (stops timetable). network (name x) \<noteq> None) \<and>
    (stops timetable = [] \<or> velocity \<noteq> 0) \<longrightarrow>
      (\<exists>m'. get_train_movement timetable velocity network = Inr m'))"
  using get_train_movement_hd [of timetable velocity network m km]
    get_train_movement_returns [of timetable velocity network]
  by auto

theorem first_sample_is_departure_witness:
  "build_network 5 ''A'' = Some 0 \<and>
   build_network 5 ''D'' \<noteq> None \<and> build_network 5 ''G'' \<noteq> None \<and> (120 :: real) \<noteq> 0 \<and>
   get_express_movement 0 (build_network 5) =
     Inr [\<lparr>time = 0, location = 0\<rparr>, \<lparr>time = 15 / 2, location = 15\<rparr>,
          \<lparr>time = 29 / 2, location = 15\<rparr>, \<lparr>time = 22, location = 30\<rparr>,
          \<lparr>time = 22, location = 30\<rparr>] \<and>
   hd [\<lparr>time = 0, location = 0\<rparr>, \<lparr>time = 15 / 2, location = 15\<rparr>,
          \<lparr>time = 29 / 2, location = 15\<rparr>, \<lparr>time = 22, location = 30\<rparr>,
          \<lparr>time = 22, location = 30\<rparr>] = \<lparr>time = 0, location = 0 :: real\<rparr>"
  using first_sample_is_departure [where network = "build_network 5" and km = 0
      and velocity = 120 and timetable =
      "\<lparr>stops = [\<lparr>name = ''D'', dwell_time = 7\<rparr>, \<lparr>name = ''G'', dwell_time = 0\<rparr>],
        departure_station = ''A'', departure_time = 0\<rparr>"
      and m =
      "[\<lparr>time = 0, location = 0\<rparr>, \<lparr>time = 15 / 2, location = 15\<rparr>,
        \<lparr>time = 29 / 2, location = 15\<rparr>, \<lparr>time = 22, location = 30\<rparr>,
        \<lparr>time = 22, location = 30\<rparr>]"]
    express_run express_run'
  by (simp add: build_network_def)

text \<open>
  Claim C2. A trajectory returned for a route of R stops has exactly 1 + 2R samples; with
  all stations in the network and a non-zero velocity such a trajectory is returned; and an
  empty route yields the single initial departure sample, whatever the velocity.
\<close>

theorem sample_count:
  "(get_train_movement timetable velocity network = Inr m \<longrightarrow>
      length m = 1 + 2 * length (stops timetable)) \<and>
   (network (departure_station timetable) = Some km \<and>
    (\<forall>x \<in> set (stops timetable). network (name x) \<noteq> None) \<and> velocity \<noteq> 0 \<longrightarrow>
      (\<exists>m'. get_train_movement timetable velocity network = Inr m' \<and>
            length m' = 1 + 2 * length (stops timetable))) \<and>
   (network (departure_station timetable) = Some km \<and> stops timetable = [] \<longrightarrow>
      get_train_movement timetable velocity network =
        Inr [\<lparr>time = departure_time timetable, location = km\<rparr>])"
proof (intro conjI impI)
  assume "get_train_movement timetable velocity network = Inr m"
  then show "length m = 1 + 2 * length (stops timetable)"
    by (rule get_train_movement_length)
next
  assume "network (departure_station timetable) = Some km \<and>
    (\<forall>x \<in> set (stops timetable). network (name x) \<noteq> None) \<and> velocity \<noteq> 0"
  then obtain m' where "get_train_movement timetable velocity network = Inr m'"
    using get_train_movement_returns [of timetable velocity network] by auto
  then show "\<exists>m'. get_train_movement timetable velocity network = Inr m' \<and>
      length m' = 1 + 2 * length (stops timetable)"
    by (auto dest: get_train_movement_length)
next
  assume "network (departure_station timetable) = Some km \<and> stops timetable = []"
  then show "get_train_movement timetable velocity network =
      Inr [\<lparr>time = departure_time timetable, location = km\<rparr>]"
    by (simp add: get_train_movement_visit_all start_def)
qed

theorem sample_count_witness:
  "get_express_movement 0 (build_network 5) =
     Inr [\<lparr>time = 0, location = 0\<rparr>, \<lparr>time = 15 / 2, location = 15\<rparr>,
          \<lparr>time = 29 / 2, location = 15\<rparr>, \<lparr>time = 22, location = 30\<rparr>,
          \<lparr>time = 22, location = 30\<rparr>] \<and>
   length [\<lparr>time = 0, location = 0\<rparr>, \<lparr>time = 15 / 2, location = 15\<rparr>,
          \<lparr>time = 29 / 2, location = 15\<rparr>, \<lparr>time = 22, location = 30\<rparr>,
          \<lparr>time = 22, location = 30 :: real\<rparr>] =
     1 + 2 * length [\<lparr>name = ''D'', dwell_time = 7\<rparr>, \<lparr>name = ''G'', dwell_time = 0 :: real\<rparr>] \<and>
   build_network 5 ''A'' = Some 0 \<and>
   build_network 5 ''D'' \<noteq> None \<and> build_network 5 ''G'' \<noteq> None \<and>
   (120 :: real) \<noteq> 0 \<and>
   get_train_movement \<lparr>stops = [], departure_station = ''A'', departure_time = 0\<rparr>
     120 (build_network 5) = Inr [\<lparr>time = 0, location = 0\<rparr>]"
  using sample_count [where network = "build_network 5" and km = 0 and velocity = 120
      and timetable =
      "\<lparr>stops = [\<lparr>name = ''D'', dwell_time = 7\<rparr>, \<lparr>name = ''G'', dwell_time = 0\<rparr>],
        departure_station = ''A'', departure_time = 0\<rparr>"
      and m =
      "[\<lparr>time = 0, location = 0\<rparr>, \<lparr>time = 15 / 2, location = 15\<rparr>,
        \<lparr>time = 29 / 2, location = 15\<rparr>, \<lparr>time = 22, location = 30\<rparr>,
        \<lparr>time = 22, location = 30\<rparr>]"]
    sample_count [where network = "build_network 5" and km = 0 and velocity = 120
      and timetable = "\<lparr>stops = [], departure_station = ''A'', departure_time = 0\<rparr>"
      and m = "[\<lparr>time = 0, location = 0\<rparr>]"]
    express_run express_run'
  by (simp add: build_network_def)

text \<open>
  Claim C4. With a strictly positive velocity, non-negative dwell times and every station in
  the network, \<^verbatim>\<open>get_train_movement\<close> returns a trajectory whose sample times are
  non-decreasing.
\<close>

theorem times_nondecreasing:
  assumes "0 < velocity"
    and "\<forall>x \<in> set (stops timetable). 0 \<le> dwell_time x"
    and "network (departure_station timetable) \<noteq> None"
    and "\<forall>x \<in> set (stops timetable). network (name x) \<noteq> None"
  shows "\<exists>m. get_train_movement timetable velocity network = Inr m \<and> sorted (map time m)"
proof -
  from assms(1,3,4) obtain m where m: "get_train_movement timetable velocity network = Inr m"
    using get_train_movement_returns [of timetable velocity network] by auto
  from get_train_movement_sorted [OF m assms(1,2)] m show ?thesis
    by blast
qed

theorem times_nondecreasing_witness:
  "(0 :: real) < 120 \<and>
   (0 :: real) \<le> 7 \<and> (0 :: real) \<le> 0 \<and>
   build_network 5 ''A'' \<noteq> None \<and>
   build_network 5 ''D'' \<noteq> None \<and> build_network 5 ''G'' \<noteq> None \<and>
   (\<exists>m. get_express_movement 0 (build_network 5) = Inr m \<and> sorted (map time m))"
  using times_nondecreasing [where network = "build_network 5" and velocity = 120
      and timetable =
      "\<lparr>stops = [\<lparr>name = ''D'', dwell_time = 7\<rparr>, \<lparr>name = ''G'', dwell_time = 0\<rparr>],
        departure_station = ''A'', departure_time = 0\<rparr>"]
    express_run express_run'
  by (simp add: build_network_def)

text \<open>
  Claim C8. Network A:0, B:5, C:10, velocity 60, route B (dwell 2) then C (dwell 0),
  departure from A at time 0: the trajectory is (0,0), (5,5), (7,5), (12,10), (12,10).
\<close>

theorem concrete_scenario:
  "get_train_movement
     \<lparr>stops = [\<lparr>name = ''B'', dwell_time = 2\<rparr>, \<lparr>name = ''C'', dwell_time = 0\<rparr>],
      departure_station = ''A'', departure_time = 0\<rparr>
     60 [''A'' \<mapsto> 0, ''B'' \<mapsto> 5, ''C'' \<mapsto> 10]
   = Inr [\<lparr>time = 0, location = 0\<rparr>, \<lparr>time = 5, location = 5\<rparr>, \<lparr>time = 7, location = 5\<rparr>,
          \<lparr>time = 12, location = 10\<rparr>, \<lparr>time = 12, location = 10\<rparr>]"
  by (simp add: get_train_movement_def dict_getitem_def log_position_def upt_rec
      loop_body_def list_getitem_def truediv_def)

text \<open>
  Claim C10. Every sample of a returned trajectory is located at the network's coordinate
  of the departure station or of a stop of the route: no sample lies between stations.
\<close>

theorem samples_at_stations:
  assumes "get_train_movement timetable velocity network = Inr m"
    and "p \<in> set m"
  shows "network (departure_station timetable) = Some (location p) \<or>
    (\<exists>x \<in> set (stops timetable). network (name x) = Some (location p))"
proof -
  from assms(1) obtain km s where
    km: "network (departure_station timetable) = Some km"
    and s: "visit_all velocity network (stops timetable) (start timetable km) = Inr s"
    and m: "m = movement s"
    by (auto simp: get_train_movement_Inr)
  from assms(2) m have "p \<in> set (movement s)"
    by simp
  from visit_all_locations [OF s this] km show ?thesis
    by (auto simp: start_def)
qed

theorem samples_at_stations_witness:
  "get_express_movement 0 (build_network 5) =
     Inr [\<lparr>time = 0, location = 0\<rparr>, \<lparr>time = 15 / 2, location = 15\<rparr>,
          \<lparr>time = 29 / 2, location = 15\<rparr>, \<lparr>time = 22, location = 30\<rparr>,
          \<lparr>time = 22, location = 30\<rparr>] \<and>
   \<lparr>time = 29 / 2, location = 15\<rparr> \<in>
     set [\<lparr>time = 0, location = 0\<rparr>, \<lparr>time = 15 / 2, location = 15\<rparr>,
          \<lparr>time = 29 / 2, location = 15\<rparr>, \<lparr>time = 22, location = 30\<rparr>,
          \<lparr>time = 22, location = 30 :: real\<rparr>] \<and>
   build_network 5 ''D'' = Some 15"
  using samples_at_stations [where network = "build_network 5" and velocity = 120
      and p = "\<lparr>time = 29 / 2, location = 15\<rparr>" and timetable =
      "\<lparr>stops = [\<lparr>name = ''D'', dwell_time = 7\<rparr>, \<lparr>name = ''G'', dwell_time = 0\<rparr>],
        departure_station = ''A'', departure_time = 0\<rparr>"
      and m =
      "[\<lparr>time = 0, location = 0\<rparr>, \<lparr>time = 15 / 2, location = 15\<rparr>,
        \<lparr>time = 29 / 2, location = 15\<rparr>, \<lparr>time = 22, location = 30\<rparr>,
        \<lparr>time = 22, location = 30\<rparr>]"]
    express_run express_run'
  by (simp add: build_network_def)

text \<open>
  Claim C5, as the code has it. \<^verbatim>\<open>get_train_movement\<close> does not check the velocity and has
  no \<^verbatim>\<open>InvalidVelocityError\<close>. With velocity 0 and a non-empty route it fails and returns no
  trajectory: with \<^verbatim>\<open>ZeroDivisionError\<close> when the departure station and the first stop are in
  the network. With velocity 0 and an empty route it returns the initial sample, and with a
  negative velocity and every station in the network it returns a trajectory.
\<close>

theorem zero_velocity_fails:
  "(stops timetable \<noteq> [] \<longrightarrow> (\<exists>e. get_train_movement timetable 0 network = Inl e)) \<and>
   (stops timetable \<noteq> [] \<and> network (departure_station timetable) \<noteq> None \<and>
    network (name (hd (stops timetable))) \<noteq> None \<longrightarrow>
      get_train_movement timetable 0 network = Inl ZeroDivisionError) \<and>
   (stops timetable = [] \<and> network (departure_station timetable) = Some km \<longrightarrow>
      get_train_movement timetable 0 network =
        Inr [\<lparr>time = departure_time timetable, location = km\<rparr>]) \<and>
   (velocity < 0 \<and> network (departure_station timetable) \<noteq> None \<and>
    (\<forall>x \<in> set (stops timetable). network (name x) \<noteq> None) \<longrightarrow>
      (\<exists>m. get_train_movement timetable velocity network = Inr m))"
proof (intro conjI impI)
  assume "stops timetable \<noteq> []"
  then have "\<not> (\<exists>m. get_train_movement timetable 0 network = Inr m)"
    by (simp add: get_train_movement_returns)
  then show "\<exists>e. get_train_movement timetable 0 network = Inl e"
    by (cases "get_train_movement timetable 0 network") auto
next
  assume a: "stops timetable \<noteq> [] \<and> network (departure_station timetable) \<noteq> None \<and>
    network (name (hd (stops timetable))) \<noteq> None"
  then obtain stop rest where "stops timetable = stop # rest"
    by (cases "stops timetable") auto
  with a show "get_train_movement timetable 0 network = Inl ZeroDivisionError"
    by (auto simp: get_train_movement_visit_all visit_def)
next
  assume "stops timetable = [] \<and> network (departure_station timetable) = Some km"
  then show "get_train_movement timetable 0 network =
      Inr [\<lparr>time = departure_time timetable, location = km\<rparr>]"
    by (simp add: get_train_movement_visit_all start_def)
next
  assume "velocity < 0 \<and> network (departure_station timetable) \<noteq> None \<and>
    (\<forall>x \<in> set (stops timetable). network (name x) \<noteq> None)"
  then show "\<exists>m. get_train_movement timetable velocity network = Inr m"
    using get_train_movement_returns [of timetable velocity network] by auto
qed

theorem zero_velocity_fails_witness:
  "[\<lparr>name = ''G'', dwell_time = 0 :: real\<rparr>] \<noteq> [] \<and>
   build_network 5 ''A'' \<noteq> None \<and> build_network 5 ''G'' \<noteq> None \<and>
   get_train_movement
     \<lparr>stops = [\<lparr>name = ''G'', dwell_time = 0\<rparr>], departure_station = ''A'', departure_time = 0\<rparr>
     0 (build_network 5) = Inl ZeroDivisionError \<and>
   get_train_movement \<lparr>stops = [], departure_station = ''A'', departure_time = 0\<rparr>
     0 (build_network 5) = Inr [\<lparr>time = 0, location = 0\<rparr>] \<and>
   (- 60 :: real) < 0 \<and>
   (\<exists>m. get_train_movement
     \<lparr>stops = [\<lparr>name = ''G'', dwell_time = 0\<rparr>], departure_station = ''A'', departure_time = 0\<rparr>
     (- 60) (build_network 5) = Inr m)"
  using zero_velocity_fails [where network = "build_network 5" and km = 0
      and velocity = "- 60" and timetable =
      "\<lparr>stops = [\<lparr>name = ''G'', dwell_time = 0\<rparr>], departure_station = ''A'', departure_time = 0\<rparr>"]
    zero_velocity_fails [where network = "build_network 5" and km = 0 and velocity = "- 60"
      and timetable = "\<lparr>stops = [], departure_station = ''A'', departure_time = 0\<rparr>"]
  by (simp add: build_network_def)

text \<open>
  Claim C5 as stated fails: with velocity -60 the freight route from A to G on the network
  of spacing 5 is not rejected; a trajectory is returned, running backwards in time.
\<close>

theorem negative_velocity_counterexample:
  "get_train_movement
     \<lparr>stops = [\<lparr>name = ''G'', dwell_time = 0\<rparr>], departure_station = ''A'', departure_time = 0\<rparr>
     (- 60) (build_network 5)
   = Inr [\<lparr>time = 0, location = 0\<rparr>, \<lparr>time = - 30, location = 30\<rparr>,
          \<lparr>time = - 30, location = 30\<rparr>]"
  by (simp add: get_train_movement_def dict_getitem_def log_position_def upt_rec
      loop_body_def list_getitem_def truediv_def build_network_def)

text \<open>
  Claim C9. \<^verbatim>\<open>get_train_movement\<close> is a pure function of its three inputs. On a heap that
  holds a timetable and a network, the call leaves every object that was allocated before it
  as it was: the final heap is the initial heap followed by new objects, also when the call
  raises, so the timetable, its route, its stops and the network still hold the same values.
  The list it returns and the \<^verbatim>\<open>Position\<close> objects in it are among the new objects, so
  nothing of the result is shared with the inputs. What the call returns or raises is what
  the function on values computes from the timetable, the velocity and the network alone.
  The body calls no function that reads or writes anything but these objects.
\<close>

theorem get_train_movement_frame:
  assumes "timetable_at h t timetable" and "network_at h n network"
  shows "case get_train_movement_at h t velocity n of
      Inl (e, h') \<Rightarrow>
        prefix h h' \<and> timetable_at h' t timetable \<and> network_at h' n network \<and>
        get_train_movement timetable velocity network = Inl e
    | Inr (r, h') \<Rightarrow>
        prefix h h' \<and> timetable_at h' t timetable \<and> network_at h' n network \<and>
        allocated_since (length h) h' r \<and>
        (\<exists>m. movement_at h' r m \<and> get_train_movement timetable velocity network = Inr m)"
proof (cases "get_train_movement_at h t velocity n")
  case (Inl eh)
  obtain e h' where eh: "eh = (e, h')"
    by (cases eh)
  from get_train_movement_at_extends [of h t velocity n] Inl eh have p: "prefix h h'"
    by simp
  from sim_get_train_movement [OF assms, of velocity] Inl eh
  have "get_train_movement timetable velocity network = Inl e"
    by simp
  with p timetable_at_prefix [OF p assms(1)] network_at_prefix [OF p assms(2)] Inl eh
  show ?thesis
    by simp
next
  case (Inr rh)
  obtain r h' where rh: "rh = (r, h')"
    by (cases rh)
  from get_train_movement_at_extends [of h t velocity n] Inr rh have p: "prefix h h'"
    by simp
  from sim_get_train_movement [OF assms, of velocity] Inr rh
  have "allocated_since (length h) h' r"
    and "\<exists>m. movement_at h' r m \<and> get_train_movement timetable velocity network = Inr m"
    by auto
  with p timetable_at_prefix [OF p assms(1)] network_at_prefix [OF p assms(2)] Inr rh
  show ?thesis
    by simp
qed

theorem get_train_movement_frame_witness:
  "timetable_at
     [Dict_obj (build_network 5), Stop_obj ''D'' 7, Stop_obj ''G'' 0, List_obj [1, 2],
      Timetable_obj 3 ''A'' 0] 4
     \<lparr>stops = [\<lparr>name = ''D'', dwell_time = 7\<rparr>, \<lparr>name = ''G'', dwell_time = 0\<rparr>],
      departure_station = ''A'', departure_time = 0\<rparr> \<and>
   network_at
     [Dict_obj (build_network 5), Stop_obj ''D'' 7, Stop_obj ''G'' 0, List_obj [1, 2],
      Timetable_obj 3 ''A'' 0] 0 (build_network 5) \<and>
   get_train_movement_at
     [Dict_obj (build_network 5), Stop_obj ''D'' 7, Stop_obj ''G'' 0, List_obj [1, 2],
      Timetable_obj 3 ''A'' 0] 4 120 0 =
   Inr (5, [Dict_obj (build_network 5), Stop_obj ''D'' 7, Stop_obj ''G'' 0, List_obj [1, 2],
      Timetable_obj 3 ''A'' 0, List_obj [6, 7, 8, 9, 10], Position_obj 0 0,
      Position_obj (15 / 2) 15, Position_obj (29 / 2) 15, Position_obj 22 30,
      Position_obj 22 30]) \<and>
   allocated_since 5
     [Dict_obj (build_network 5), Stop_obj ''D'' 7, Stop_obj ''G'' 0, List_obj [1, 2],
      Timetable_obj 3 ''A'' 0, List_obj [6, 7, 8, 9, 10], Position_obj 0 0,
      Position_obj (15 / 2) 15, Position_obj (29 / 2) 15, Position_obj 22 30,
      Position_obj 22 30] 5 \<and>
   get_express_movement 0 (build_network 5) =
     Inr [\<lparr>time = 0, location = 0\<rparr>, \<lparr>time = 15 / 2, location = 15\<rparr>,
          \<lparr>time = 29 / 2, location = 15\<rparr>, \<lparr>time = 22, location = 30\<rparr>,
          \<lparr>time = 22, location = 30\<rparr>]"
  using get_train_movement_frame [where t = 4 and n = 0 and velocity = 120
      and network = "build_network 5" and h =
      "[Dict_obj (build_network 5), Stop_obj ''D'' 7, Stop_obj ''G'' 0, List_obj [1, 2],
        Timetable_obj 3 ''A'' 0]"
      and timetable =
      "\<lparr>stops = [\<lparr>name = ''D'', dwell_time = 7\<rparr>, \<lparr>name = ''G'', dwell_time = 0\<rparr>],
        departure_station = ''A'', departure_time = 0\<rparr>"]
    express_run_at express_run express_run'
  by (simp add: timetable_at_def network_at_def stop_at_def deref_def allocated_since_def)




text \<open>
  Claim C7, as the code has it. With every station in the network and a velocity that is
  not zero, \<^verbatim>\<open>get_train_movement\<close> returns a trajectory in which, for the k-th stop (counted
  from 0), sample 2k + 2 is the post-dwell sample: it exists, it has the location of the
  arrival sample 2k + 1 (the stop's coordinate), and its time is the sum of the arrival time
  and the stop's dwell time rounded to the nearest double. With a dwell of 0 the two samples
  are equal. At the final stop the post-dwell sample is the last sample of the trajectory, so
  the pair is emitted there as well.
\<close>

theorem dwell_sample_rounded:
  assumes "network (departure_station timetable) \<noteq> None"
    and "\<forall>x \<in> set (stops timetable). network (name x) \<noteq> None"
    and "velocity \<noteq> Fin 0"
  shows "\<exists>m. get_train_movement_f64 timetable velocity network = Inr m \<and>
    (\<forall>k < length (stops timetable).
       2 * k + 2 < length m \<and>
       network (name (stops timetable ! k)) = Some (location (m ! (2 * k + 1))) \<and>
       location (m ! (2 * k + 2)) = location (m ! (2 * k + 1)) \<and>
       time (m ! (2 * k + 2)) = fadd (time (m ! (2 * k + 1))) (dwell_time (stops timetable ! k)) \<and>
       (dwell_time (stops timetable ! k) = Fin 0 \<longrightarrow> m ! (2 * k + 2) = m ! (2 * k + 1)) \<and>
       (k + 1 = length (stops timetable) \<longrightarrow> m ! (2 * k + 2) = last m))"
proof -
  from assms obtain m where m: "get_train_movement_f64 timetable velocity network = Inr m"
    using get_train_movement_f64_returns [of timetable velocity network] by auto
  have "2 * k + 2 < length m \<and>
       network (name (stops timetable ! k)) = Some (location (m ! (2 * k + 1))) \<and>
       location (m ! (2 * k + 2)) = location (m ! (2 * k + 1)) \<and>
       time (m ! (2 * k + 2)) = fadd (time (m ! (2 * k + 1))) (dwell_time (stops timetable ! k)) \<and>
       (dwell_time (stops timetable ! k) = Fin 0 \<longrightarrow> m ! (2 * k + 2) = m ! (2 * k + 1)) \<and>
       (k + 1 = length (stops timetable) \<longrightarrow> m ! (2 * k + 2) = last m)"
    if k: "k < length (stops timetable)" for k
  proof -
    from get_train_movement_f64_leg [OF m k] obtain km where
      km: "network (name (stops timetable ! k)) = Some km"
      and arr: "m ! (2 * k + 1) =
         \<lparr>time = arrival_f64 (time (m ! (2 * k))) (location (m ! (2 * k))) km velocity,
          location = km\<rparr>"
      and dep: "m ! (2 * k + 2) =
         \<lparr>time = fadd (time (m ! (2 * k + 1))) (dwell_time (stops timetable ! k)),
          location = km\<rparr>"
      by blast
    have len: "length m = 1 + 2 * length (stops timetable)"
      by (rule get_train_movement_f64_length [OF m])
    with k have bound: "2 * k + 2 < length m"
      by simp
    have arr_loc: "location (m ! (2 * k + 1)) = km"
      using arr by simp
    have dep_loc: "location (m ! (2 * k + 2)) = km"
      using dep by simp
    have dep_time: "time (m ! (2 * k + 2)) =
        fadd (time (m ! (2 * k + 1))) (dwell_time (stops timetable ! k))"
      using dep by simp
    have same: "m ! (2 * k + 2) = m ! (2 * k + 1)" if "dwell_time (stops timetable ! k) = Fin 0"
    proof -
      have "is_f64 (time (m ! (2 * k + 1)))"
        using arr by (simp add: arrival_f64_def is_f64_fadd)
      then have "time (m ! (2 * k + 2)) = time (m ! (2 * k + 1))"
        using dep_time that by (simp add: fadd_zero_right)
      with arr_loc dep_loc show ?thesis
        by simp
    qed
    have final: "m ! (2 * k + 2) = last m" if "k + 1 = length (stops timetable)"
    proof -
      from that len have "length m - 1 = 2 * k + 2" by simp
      moreover from bound have "m \<noteq> []" by auto
      ultimately show ?thesis
        by (simp add: last_conv_nth)
    qed
    from bound km arr_loc dep_loc dep_time same final show ?thesis
      by simp
  qed
  with m show ?thesis
    by blast
qed

theorem dwell_sample_rounded_witness:
  "[''A'' \<mapsto> Fin 0, ''C'' \<mapsto> Fin 10, ''E'' \<mapsto> Fin 20] ''A'' \<noteq> None \<and>
   [''A'' \<mapsto> Fin 0, ''C'' \<mapsto> Fin 10, ''E'' \<mapsto> Fin 20] ''E'' \<noteq> None \<and>
   [''A'' \<mapsto> Fin 0, ''C'' \<mapsto> Fin 10, ''E'' \<mapsto> Fin 20] ''C'' \<noteq> None \<and>
   Fin 160 \<noteq> Fin 0 \<and>
   get_train_movement_f64
     \<lparr>stops = [\<lparr>name = ''E'', dwell_time = Fin 2\<rparr>, \<lparr>name = ''C'', dwell_time = Fin 0\<rparr>],
      departure_station = ''A'', departure_time = Fin 0\<rparr>
     (Fin 160) [''A'' \<mapsto> Fin 0, ''C'' \<mapsto> Fin 10, ''E'' \<mapsto> Fin 20] =
   Inr [\<lparr>time = Fin 0, location = Fin 0\<rparr>, \<lparr>time = Fin (15 / 2), location = Fin 20\<rparr>,
        \<lparr>time = Fin (19 / 2), location = Fin 20\<rparr>, \<lparr>time = Fin (53 / 4), location = Fin 10\<rparr>,
        \<lparr>time = Fin (53 / 4), location = Fin 10\<rparr>] \<and>
   (1 :: nat) < length [\<lparr>name = ''E'', dwell_time = Fin 2\<rparr>, \<lparr>name = ''C'', dwell_time = Fin 0\<rparr>] \<and>
   dwell_time ([\<lparr>name = ''E'', dwell_time = Fin 2\<rparr>, \<lparr>name = ''C'', dwell_time = Fin 0\<rparr>] ! 1) =
     Fin 0 \<and>
   (1 :: nat) + 1 = length [\<lparr>name = ''E'', dwell_time = Fin 2\<rparr>, \<lparr>name = ''C'', dwell_time = Fin 0\<rparr>] \<and>
   [\<lparr>time = Fin 0, location = Fin 0\<rparr>, \<lparr>time = Fin (15 / 2), location = Fin 20\<rparr>,
    \<lparr>time = Fin (19 / 2), location = Fin 20\<rparr>, \<lparr>time = Fin (53 / 4), location = Fin 10\<rparr>,
    \<lparr>time = Fin (53 / 4), location = Fin 10\<rparr>] ! 4 = \<lparr>time = Fin (53 / 4), location = Fin 10\<rparr>"
  using dwell_sample_rounded [where velocity = "Fin 160"
      and network = "[''A'' \<mapsto> Fin 0, ''C'' \<mapsto> Fin 10, ''E'' \<mapsto> Fin 20]"
      and timetable =
      "\<lparr>stops = [\<lparr>name = ''E'', dwell_time = Fin 2\<rparr>, \<lparr>name = ''C'', dwell_time = Fin 0\<rparr>],
        departure_station = ''A'', departure_time = Fin 0\<rparr>"]
    double_back_run_f64
  by simp

text \<open>
  Claim C7 as stated fails: the post-dwell time is not always later by exactly the dwell.
  Departing at 2^53 minutes, a dwell of 1 at the departure station is absorbed by the
  rounding and the two samples have the same time. Departing at the double nearest to 0.1
  (3602879701896397 / 2^55), a dwell of 1 gives the double nearest to 1.1, which is later by
  1 + 3 / 2^55.
\<close>

theorem dwell_exact_counterexample:
  "get_train_movement_f64
     \<lparr>stops = [\<lparr>name = ''A'', dwell_time = Fin 1\<rparr>], departure_station = ''A'',
      departure_time = Fin (2 ^ 53)\<rparr>
     (Fin 60) [''A'' \<mapsto> Fin 0] =
   Inr [\<lparr>time = Fin (2 ^ 53), location = Fin 0\<rparr>, \<lparr>time = Fin (2 ^ 53), location = Fin 0\<rparr>,
        \<lparr>time = Fin (2 ^ 53), location = Fin 0\<rparr>] \<and>
   (2 ^ 53 :: real) \<noteq> 2 ^ 53 + 1 \<and>
   get_train_movement_f64
     \<lparr>stops = [\<lparr>name = ''A'', dwell_time = Fin 1\<rparr>], departure_station = ''A'',
      departure_time = Fin (3602879701896397 / 2 ^ 55)\<rparr>
     (Fin 60) [''A'' \<mapsto> Fin 0] =
   Inr [\<lparr>time = Fin (3602879701896397 / 2 ^ 55), location = Fin 0\<rparr>,
        \<lparr>time = Fin (3602879701896397 / 2 ^ 55), location = Fin 0\<rparr>,
        \<lparr>time = Fin (2476979795053773 / 2 ^ 51), location = Fin 0\<rparr>] \<and>
   (2476979795053773 / 2 ^ 51 :: real) \<noteq> 3602879701896397 / 2 ^ 55 + 1"
  using absorbed_run tenth_run by simp

text \<open>
  Claim C6. When the departure station or the station of some stop is not in the network,
  \<^verbatim>\<open>get_train_movement\<close> fails and returns no trajectory, whatever the velocity. For every
  velocity that is not zero, so for every velocity the engine is specified for, the failure
  is the \<^verbatim>\<open>KeyError\<close> of the dictionary lookup (the code's unknown-station error) for the
  first missing station in visiting order. With velocity 0 the failure is the
  \<^verbatim>\<open>KeyError\<close> of the departure station or of the first stop when one of these is missing,
  and the \<^verbatim>\<open>ZeroDivisionError\<close> of the first leg otherwise.
\<close>

theorem unknown_station_fails:
  assumes "network (departure_station timetable) = None \<or>
    (\<exists>x \<in> set (stops timetable). network (name x) = None)"
  shows "(\<exists>e. get_train_movement timetable velocity network = Inl e) \<and>
    (velocity \<noteq> 0 \<longrightarrow>
       (\<exists>k. find (\<lambda>k. network k = None)
               (departure_station timetable # map name (stops timetable)) = Some k \<and>
            get_train_movement timetable velocity network = Inl (KeyError k))) \<and>
    (velocity = 0 \<longrightarrow>
       get_train_movement timetable velocity network =
         Inl (if network (departure_station timetable) = None
              then KeyError (departure_station timetable)
              else if network (name (hd (stops timetable))) = None
              then KeyError (name (hd (stops timetable)))
              else ZeroDivisionError))"
proof (intro conjI impI)
  from assms have "\<not> (\<exists>m. get_train_movement timetable velocity network = Inr m)"
    by (auto simp: get_train_movement_returns)
  then show "\<exists>e. get_train_movement timetable velocity network = Inl e"
    by (cases "get_train_movement timetable velocity network") auto
next
  assume v: "velocity \<noteq> 0"
  from assms have "\<exists>k \<in> set (departure_station timetable # map name (stops timetable)).
      network k = None"
    by auto
  then obtain k where k: "find (\<lambda>k. network k = None)
      (departure_station timetable # map name (stops timetable)) = Some k"
    by (rule find_first [THEN exE])
  from get_train_movement_KeyError [OF v k] k
  show "\<exists>k. find (\<lambda>k. network k = None)
      (departure_station timetable # map name (stops timetable)) = Some k \<and>
      get_train_movement timetable velocity network = Inl (KeyError k)"
    by blast
next
  assume v: "velocity = 0"
  show "get_train_movement timetable velocity network =
         Inl (if network (departure_station timetable) = None
              then KeyError (departure_station timetable)
              else if network (name (hd (stops timetable))) = None
              then KeyError (name (hd (stops timetable)))
              else ZeroDivisionError)"
  proof (cases "network (departure_station timetable)")
    case None
    then show ?thesis
      by (simp add: get_train_movement_visit_all)
  next
    case (Some km)
    with assms obtain stop rest where "stops timetable = stop # rest"
      by (cases "stops timetable") auto
    with Some v show ?thesis
      by (simp add: get_train_movement_visit_all visit_def split: option.splits)
  qed
qed

theorem unknown_station_fails_witness:
  "(\<exists>x \<in> set [\<lparr>name = ''B'', dwell_time = 0\<rparr>, \<lparr>name = ''Z'', dwell_time = 0 :: real\<rparr>].
      build_network 5 (name x) = None) \<and>
   (60 :: real) \<noteq> 0 \<and>
   find (\<lambda>k. build_network 5 k = None) [''A'', ''B'', ''Z''] = Some ''Z'' \<and>
   get_train_movement
     \<lparr>stops = [\<lparr>name = ''B'', dwell_time = 0\<rparr>, \<lparr>name = ''Z'', dwell_time = 0\<rparr>],
      departure_station = ''A'', departure_time = 0\<rparr>
     60 (build_network 5) = Inl (KeyError ''Z'') \<and>
   build_network 5 ''Z'' = None \<and>
   get_train_movement
     \<lparr>stops = [\<lparr>name = ''Z'', dwell_time = 0\<rparr>], departure_station = ''A'', departure_time = 0\<rparr>
     0 (build_network 5) = Inl (KeyError ''Z'') \<and>
   get_train_movement
     \<lparr>stops = [\<lparr>name = ''B'', dwell_time = 0\<rparr>, \<lparr>name = ''Z'', dwell_time = 0\<rparr>],
      departure_station = ''A'', departure_time = 0\<rparr>
     0 (build_network 5) = Inl ZeroDivisionError \<and>
   get_train_movement
     \<lparr>stops = [\<lparr>name = ''B'', dwell_time = 0\<rparr>], departure_station = ''Z'', departure_time = 0\<rparr>
     0 (build_network 5) = Inl (KeyError ''Z'')"
  using unknown_station_fails [where network = "build_network 5" and velocity = 60
      and timetable =
      "\<lparr>stops = [\<lparr>name = ''B'', dwell_time = 0\<rparr>, \<lparr>name = ''Z'', dwell_time = 0\<rparr>],
        departure_station = ''A'', departure_time = 0\<rparr>"]
    unknown_station_fails [where network = "build_network 5" and velocity = 0
      and timetable =
      "\<lparr>stops = [\<lparr>name = ''Z'', dwell_time = 0\<rparr>], departure_station = ''A'', departure_time = 0\<rparr>"]
    unknown_station_fails [where network = "build_network 5" and velocity = 0
      and timetable =
      "\<lparr>stops = [\<lparr>name = ''B'', dwell_time = 0\<rparr>, \<lparr>name = ''Z'', dwell_time = 0\<rparr>],
        departure_station = ''A'', departure_time = 0\<rparr>"]
    unknown_station_fails [where network = "build_network 5" and velocity = 0
      and timetable =
      "\<lparr>stops = [\<lparr>name = ''B'', dwell_time = 0\<rparr>], departure_station = ''Z'', departure_time = 0\<rparr>"]
  by (simp add: build_network_def)

end
